theory Spec2Isabelle
  imports Main "HOL-Library.Word"
begin

section \<open>Data of the ELB helper (pkg/awsclient/elb_helper.go)\<close>

text \<open>
  The helper is a set of methods on \<open>*awsClient\<close>. Each method builds one request struct
  of the AWS SDK's \<open>elb\<close> package, calls the matching method of the client and hands the
  error back. The SDK and the remote service are not part of the repository, so the client
  is a parameter of the model: a record of the seven SDK methods the helper calls, each a
  transition on a state \<open>'s\<close> of the remote service.

  Request fields the helper always fills through \<open>aws.String\<close>, \<open>aws.Int64\<close>,
  \<open>aws.StringSlice\<close> or \<open>aws.Int64Slice\<close> are modelled unboxed. Response fields are
  pointers the helper dereferences, so they are options: \<open>None\<close> is Go's \<open>nil\<close>.
  The two \<open>fmt.Printf\<close> progress lines of \<open>CreateClassicELB\<close> write to standard output
  only and are left out.
\<close>

type_synonym int64 = "64 word"

text \<open>
  A Go \<open>error\<close> value. \<open>AwsErr code message\<close> is a value that implements
  \<open>awserr.Error\<close>; \<open>PlainErr message\<close> is any other error, for which the type assertion
  \<open>err.(awserr.Error)\<close> yields \<open>ok = false\<close>.
\<close>

datatype goerror = AwsErr string string | PlainErr string

fun awserr_Code :: "goerror \<Rightarrow> string option" where
  "awserr_Code (AwsErr code msg) = Some code"
| "awserr_Code (PlainErr msg) = None"

text \<open>The SDK's constant \<open>elb.ErrCodeAccessPointNotFoundException\<close>.\<close>

definition ErrCodeAccessPointNotFoundException :: string where
  "ErrCodeAccessPointNotFoundException = ''LoadBalancerNotFound''"

text \<open>What a Go call does: it returns its results, or it panics.\<close>

datatype 'a outcome = Return 'a | Panic

record listener =
  InstancePort :: int64
  InstanceProtocol :: string
  Protocol :: string
  LoadBalancerPort :: int64

record health_check =
  HealthyThreshold :: int64
  Interval :: int64
  Target :: string
  Timeout :: int64
  UnhealthyThreshold :: int64

record elb_instance =
  InstanceId :: string

record create_lb_input =
  clb_LoadBalancerName :: string
  clb_Subnets :: "string list"
  clb_Listeners :: "listener list"

record create_lb_output =
  clb_DNSName :: "string option"

record configure_hc_input =
  chc_HealthCheck :: health_check
  chc_LoadBalancerName :: string

record delete_listeners_input =
  dl_LoadBalancerName :: string
  dl_LoadBalancerPorts :: "int64 list"

record create_listeners_input =
  cl_Listeners :: "listener list"
  cl_LoadBalancerName :: string

record register_input =
  reg_Instances :: "elb_instance list"
  reg_LoadBalancerName :: string

record deregister_input =
  dereg_Instances :: "elb_instance list"
  dereg_LoadBalancerName :: string

record describe_input =
  LoadBalancerNames :: "string list"

record lb_description =
  DNSName :: "string option"

record describe_output =
  LoadBalancerDescriptions :: "lb_description option list"

text \<open>
  The receiver \<open>c *awsClient\<close>: the SDK methods the helper calls. A method returning
  \<open>(*Output, error)\<close> whose output the helper discards (\<open>_, err := ...\<close>) is modelled
  by its error alone.
\<close>

record 's awsClient =
  CreateLoadBalancer ::
    "create_lb_input \<Rightarrow> 's \<Rightarrow> (create_lb_output option \<times> goerror option) \<times> 's"
  ConfigureHealthCheck :: "configure_hc_input \<Rightarrow> 's \<Rightarrow> goerror option \<times> 's"
  DeleteLoadBalancerListeners :: "delete_listeners_input \<Rightarrow> 's \<Rightarrow> goerror option \<times> 's"
  CreateLoadBalancerListeners :: "create_listeners_input \<Rightarrow> 's \<Rightarrow> goerror option \<times> 's"
  RegisterInstancesWithLoadBalancer :: "register_input \<Rightarrow> 's \<Rightarrow> goerror option \<times> 's"
  DeregisterInstancesWithLoadBalancer :: "deregister_input \<Rightarrow> 's \<Rightarrow> goerror option \<times> 's"
  DescribeLoadBalancers ::
    "describe_input \<Rightarrow> 's \<Rightarrow> (describe_output option \<times> goerror option) \<times> 's"

section \<open>Formatting the health-check target\<close>

text \<open>
  \<open>fmt.Sprintf("%s:%d%s", protocol, port, path)\<close>: the verb \<open>%d\<close> prints a signed
  64-bit integer in decimal, with a minus sign when it is negative.
\<close>

definition digit_char :: "nat \<Rightarrow> char" where
  "digit_char d = ''0123456789'' ! d"

function decimal :: "nat \<Rightarrow> string" where
  "decimal n = (if n < 10 then [digit_char n] else decimal (n div 10) @ [digit_char (n mod 10)])"
  by pat_completeness auto
termination
  by (relation "measure id") auto

declare decimal.simps [simp del]

definition fmt_d :: "int64 \<Rightarrow> string" where
  "fmt_d p = (if sint p < 0 then CHR ''-'' # decimal (nat (- sint p)) else decimal (nat (sint p)))"

definition sprintf_target :: "string \<Rightarrow> int64 \<Rightarrow> string \<Rightarrow> string" where
  "sprintf_target protocol port path = protocol @ '':'' @ fmt_d port @ path"

section \<open>The helper's methods\<close>

definition addHealthCheck ::
  "'s awsClient \<Rightarrow> string \<Rightarrow> string \<Rightarrow> string \<Rightarrow> int64 \<Rightarrow> 's \<Rightarrow> goerror option \<times> 's" where
  "addHealthCheck c loadBalancerName protocol path port s =
     ConfigureHealthCheck c
       \<lparr>chc_HealthCheck =
          \<lparr>HealthyThreshold = 2,
           Interval = 30,
           Target = sprintf_target protocol port path,
           Timeout = 3,
           UnhealthyThreshold = 2\<rparr>,
        chc_LoadBalancerName = loadBalancerName\<rparr> s"

text \<open>
  \<open>CreateClassicELB\<close> returns \<open>(string, error)\<close>. The last line dereferences
  \<open>o\<close> and \<open>o.DNSName\<close>: a nil pointer there is a panic.
\<close>

definition CreateClassicELB ::
  "'s awsClient \<Rightarrow> string \<Rightarrow> string list \<Rightarrow> int64 \<Rightarrow> 's
     \<Rightarrow> (string \<times> goerror option) outcome \<times> 's" where
  "CreateClassicELB c elbName subnets listenerPort s =
     (case CreateLoadBalancer c
             \<lparr>clb_LoadBalancerName = elbName,
              clb_Subnets = subnets,
              clb_Listeners =
                [\<lparr>InstancePort = listenerPort,
                  InstanceProtocol = ''tcp'',
                  Protocol = ''tcp'',
                  LoadBalancerPort = listenerPort\<rparr>]\<rparr> s of
        ((out, Some err), s1) \<Rightarrow> (Return ('''', Some err), s1)
      | ((out, None), s1) \<Rightarrow>
          (case addHealthCheck c elbName ''HTTP'' ''/'' 6443 s1 of
             (Some err, s2) \<Rightarrow> (Return ('''', Some err), s2)
           | (None, s2) \<Rightarrow>
               (case out of
                  None \<Rightarrow> (Panic, s2)
                | Some res \<Rightarrow>
                    (case clb_DNSName res of
                       None \<Rightarrow> (Panic, s2)
                     | Some dns \<Rightarrow> (Return (dns, None), s2)))))"

definition removeListenersFromELB :: "'s awsClient \<Rightarrow> string \<Rightarrow> 's \<Rightarrow> goerror option \<times> 's" where
  "removeListenersFromELB c elbName s =
     DeleteLoadBalancerListeners c
       \<lparr>dl_LoadBalancerName = elbName, dl_LoadBalancerPorts = [6443]\<rparr> s"

definition addListenersToELB ::
  "'s awsClient \<Rightarrow> string \<Rightarrow> listener list \<Rightarrow> 's \<Rightarrow> goerror option \<times> 's" where
  "addListenersToELB c elbName listeners s =
     CreateLoadBalancerListeners c
       \<lparr>cl_Listeners = listeners, cl_LoadBalancerName = elbName\<rparr> s"

definition SetLoadBalancerPrivate :: "'s awsClient \<Rightarrow> string \<Rightarrow> 's \<Rightarrow> goerror option \<times> 's" where
  "SetLoadBalancerPrivate c elbName s = removeListenersFromELB c elbName s"

definition SetLoadBalancerPublic ::
  "'s awsClient \<Rightarrow> string \<Rightarrow> int64 \<Rightarrow> 's \<Rightarrow> goerror option \<times> 's" where
  "SetLoadBalancerPublic c elbName listenerPort s =
     addListenersToELB c elbName
       [\<lparr>InstancePort = listenerPort,
         InstanceProtocol = ''tcp'',
         Protocol = ''tcp'',
         LoadBalancerPort = listenerPort\<rparr>] s"

text \<open>
  The loop \<open>for _, instance := range instanceIds\<close> appends one \<open>elb.Instance\<close> per
  identifier, in order.
\<close>

fun instances_of :: "string list \<Rightarrow> elb_instance list" where
  "instances_of [] = []"
| "instances_of (i # instanceIds) = \<lparr>InstanceId = i\<rparr> # instances_of instanceIds"

definition AddLoadBalancerInstances ::
  "'s awsClient \<Rightarrow> string \<Rightarrow> string list \<Rightarrow> 's \<Rightarrow> goerror option \<times> 's" where
  "AddLoadBalancerInstances c elbName instanceIds s =
     RegisterInstancesWithLoadBalancer c
       \<lparr>reg_Instances = instances_of instanceIds, reg_LoadBalancerName = elbName\<rparr> s"

definition RemoveInstancesFromLoadBalancer ::
  "'s awsClient \<Rightarrow> string \<Rightarrow> string list \<Rightarrow> 's \<Rightarrow> goerror option \<times> 's" where
  "RemoveInstancesFromLoadBalancer c elbName instanceIds s =
     DeregisterInstancesWithLoadBalancer c
       \<lparr>dereg_Instances = instances_of instanceIds, dereg_LoadBalancerName = elbName\<rparr> s"

text \<open>
  The last line of \<open>DoesELBExist\<close>,
  \<open>*res.LoadBalancerDescriptions[0].DNSName\<close>: a nil \<open>res\<close>, an empty slice, a nil
  element or a nil \<open>DNSName\<close> is a panic.
\<close>

definition first_DNSName :: "describe_output option \<Rightarrow> (bool \<times> string \<times> goerror option) outcome" where
  "first_DNSName res =
     (case res of
        None \<Rightarrow> Panic
      | Some out \<Rightarrow>
          (case LoadBalancerDescriptions out of
             [] \<Rightarrow> Panic
           | d # ds \<Rightarrow>
               (case d of
                  None \<Rightarrow> Panic
                | Some desc \<Rightarrow>
                    (case DNSName desc of
                       None \<Rightarrow> Panic
                     | Some dns \<Rightarrow> Return (True, dns, None)))))"

text \<open>
  \<open>DoesELBExist\<close> returns inside \<open>if err != nil\<close> only when the error is an
  \<open>awserr.Error\<close>; with any other error, and with no error, control reaches the last line.
\<close>

definition DoesELBExist ::
  "'s awsClient \<Rightarrow> string \<Rightarrow> 's \<Rightarrow> (bool \<times> string \<times> goerror option) outcome \<times> 's" where
  "DoesELBExist c elbName s =
     (case DescribeLoadBalancers c \<lparr>LoadBalancerNames = [elbName]\<rparr> s of
        ((res, err), s1) \<Rightarrow>
          (case err of
             Some e \<Rightarrow>
               (case awserr_Code e of
                  Some code \<Rightarrow>
                    if code = ErrCodeAccessPointNotFoundException
                    then (Return (False, '''', None), s1)
                    else (Return (False, '''', Some e), s1)
                | None \<Rightarrow> (first_DNSName res, s1))
           | None \<Rightarrow> (first_DNSName res, s1)))"

section \<open>The remote load-balancer service\<close>

text \<open>
  The provider's service is outside the repository. Statements about what a caller observes
  after a call (which listeners an LB has, who its members are, whether it is found) need a
  service to run the helper against; the one below follows sections 3 and 6 of the
  specification. It keeps the requests it received, in order, so that a theorem can say
  which requests a method of the helper issued.
\<close>

text \<open>Modelled from the spec: one LB of the data model of section 3 (a DNS name, listeners
  keyed by frontend port, at most one health check, a set of instance refs); the provider's
  service itself is not under src/.\<close>

record lb =
  lb_DNSName :: string
  lb_Listeners :: "listener list"
  lb_HealthCheck :: "health_check option"
  lb_Instances :: "string set"

text \<open>Modelled from the spec: a request to one of the seven operations of the consumed
  capability of section 6, with the input the helper builds for it.\<close>

datatype request =
  ReqCreateLoadBalancer create_lb_input
| ReqConfigureHealthCheck configure_hc_input
| ReqCreateListeners create_listeners_input
| ReqDeleteListeners delete_listeners_input
| ReqRegisterInstances register_input
| ReqDeregisterInstances deregister_input
| ReqDescribeLoadBalancer describe_input

text \<open>Modelled from the spec: the state of the remote service of section 6, the LBs of the
  account by name ("the remote service is the single source of truth"), with the log of
  requests received.\<close>

record service =
  lbs :: "string \<rightharpoonup> lb"
  requests :: "request list"

text \<open>Modelled from the spec: the names of the seven operations of section 6.\<close>

datatype operation =
  OpCreateLoadBalancer
| OpConfigureHealthCheck
| OpCreateListeners
| OpDeleteListeners
| OpRegisterInstances
| OpDeregisterInstances
| OpDescribeLoadBalancer

text \<open>Modelled from the spec: what the specification leaves to the provider. \<open>fault\<close>
  is the fault, if any, with which the service answers an operation whatever the request
  (the "any other remote failure" of section 4.1); \<open>reports_absent_listener\<close> says whether
  deleting a listener that is not there raises the "not found for this specific listener"
  condition; \<open>reports_duplicate_listener\<close> says whether creating a listener identical to an
  existing one is rejected ("provider-defined" in section 4.1); \<open>rejects_empty_instances\<close>
  says whether a register or deregister request that names no instance is rejected (section 6
  gives the signature of the two operations and not their answer to an empty list);
  \<open>reports_absent_member\<close> says whether deregistering an instance that is not a member
  raises a condition (section 7 counts "absent/duplicate membership changes" among the
  conditions of the service that a caller is not to see as errors).\<close>

record provider =
  fault :: "operation \<Rightarrow> goerror option"
  reports_absent_listener :: bool
  reports_duplicate_listener :: bool
  rejects_empty_instances :: bool
  reports_absent_member :: bool

text \<open>Modelled from the spec: the not-found condition specific to a name (section 4.1,
  Exists), with the SDK's code for it.\<close>

definition not_found :: "string \<Rightarrow> goerror" where
  "not_found name = AwsErr ErrCodeAccessPointNotFoundException name"

text \<open>Modelled from the spec: the "provider-assigned fully-qualified DNS name" of a new LB,
  a fixed non-empty name derived from the LB's name.\<close>

definition assign_dns :: "string \<Rightarrow> string" where
  "assign_dns name = name @ ''.elb.example.com''"

text \<open>Modelled from the spec: the service notes every request it receives, also one it
  rejects (each operation of the helper is one round-trip to the remote service, section 5).\<close>

definition record_request :: "request \<Rightarrow> service \<Rightarrow> service" where
  "record_request r s = s\<lparr>requests := requests s @ [r]\<rparr>"

text \<open>Modelled from the spec: a mutation of one named LB. The request is logged; an injected
  fault, or the not-found condition when the name is unknown ("surfaced as an error to
  operations that require the LB to already exist", section 7), leaves every LB as it was.\<close>

definition update_lb ::
  "provider \<Rightarrow> operation \<Rightarrow> request \<Rightarrow> string \<Rightarrow> (lb \<Rightarrow> goerror + lb) \<Rightarrow> service
     \<Rightarrow> goerror option \<times> service" where
  "update_lb p opn r name f s =
     (case fault p opn of
        Some e \<Rightarrow> (Some e, record_request r s)
      | None \<Rightarrow>
          (case lbs s name of
             None \<Rightarrow> (Some (not_found name), record_request r s)
           | Some b \<Rightarrow>
               (case f b of
                  Inl e \<Rightarrow> (Some e, record_request r s)
                | Inr b' \<Rightarrow> (None, (record_request r s)\<lparr>lbs := (lbs s)(name \<mapsto> b')\<rparr>))))"

text \<open>Modelled from the spec: \<open>CreateLoadBalancer(name, subnets[], listeners[]) \<rightarrow> dnsName\<close>
  of section 6. The name is "unique within the account": a second creation under a name in
  use is rejected. A new LB has the listeners of the request, no health check and no
  member.\<close>

definition svc_CreateLoadBalancer ::
  "provider \<Rightarrow> create_lb_input \<Rightarrow> service
     \<Rightarrow> (create_lb_output option \<times> goerror option) \<times> service" where
  "svc_CreateLoadBalancer p i s =
     (case fault p OpCreateLoadBalancer of
        Some e \<Rightarrow> ((None, Some e), record_request (ReqCreateLoadBalancer i) s)
      | None \<Rightarrow>
          (case lbs s (clb_LoadBalancerName i) of
             Some b \<Rightarrow>
               ((None, Some (AwsErr ''DuplicateLoadBalancerName'' (clb_LoadBalancerName i))),
                record_request (ReqCreateLoadBalancer i) s)
           | None \<Rightarrow>
               ((Some \<lparr>clb_DNSName = Some (assign_dns (clb_LoadBalancerName i))\<rparr>, None),
                (record_request (ReqCreateLoadBalancer i) s)
                  \<lparr>lbs := (lbs s)(clb_LoadBalancerName i \<mapsto>
                     \<lparr>lb_DNSName = assign_dns (clb_LoadBalancerName i),
                      lb_Listeners = clb_Listeners i,
                      lb_HealthCheck = None,
                      lb_Instances = {}\<rparr>)\<rparr>)))"

text \<open>Modelled from the spec: \<open>ConfigureHealthCheck(name, HealthCheckSpec)\<close> of section 6;
  "exactly one active configuration at a time, last-write-wins".\<close>

definition svc_ConfigureHealthCheck ::
  "provider \<Rightarrow> configure_hc_input \<Rightarrow> service \<Rightarrow> goerror option \<times> service" where
  "svc_ConfigureHealthCheck p i s =
     update_lb p OpConfigureHealthCheck (ReqConfigureHealthCheck i) (chc_LoadBalancerName i)
       (\<lambda>b. Inr (b\<lparr>lb_HealthCheck := Some (chc_HealthCheck i)\<rparr>)) s"

text \<open>Modelled from the spec: adding listeners to "a set of listeners keyed by frontend port
  (no two listeners share a frontend port)". A listener whose frontend port is free is
  added. One identical to the listener on its port changes nothing, and is rejected only
  by a provider that reports duplicates. One that differs from the listener on its port is
  the conflict of section 4.1 and is rejected.\<close>

fun add_listeners :: "provider \<Rightarrow> listener list \<Rightarrow> listener list \<Rightarrow> goerror + listener list" where
  "add_listeners p [] ls = Inr ls"
| "add_listeners p (l # new) ls =
     (case find (\<lambda>x. LoadBalancerPort x = LoadBalancerPort l) ls of
        None \<Rightarrow> add_listeners p new (ls @ [l])
      | Some x \<Rightarrow>
          if x = l \<and> \<not> reports_duplicate_listener p then add_listeners p new ls
          else Inl (AwsErr ''DuplicateListener'' []))"

text \<open>Modelled from the spec: \<open>CreateListeners(name, listeners[])\<close> of section 6.\<close>

definition svc_CreateListeners ::
  "provider \<Rightarrow> create_listeners_input \<Rightarrow> service \<Rightarrow> goerror option \<times> service" where
  "svc_CreateListeners p i s =
     update_lb p OpCreateListeners (ReqCreateListeners i) (cl_LoadBalancerName i)
       (\<lambda>b. case add_listeners p (cl_Listeners i) (lb_Listeners b) of
               Inl e \<Rightarrow> Inl e
             | Inr ls \<Rightarrow> Inr (b\<lparr>lb_Listeners := ls\<rparr>)) s"

text \<open>Modelled from the spec: \<open>DeleteListeners(name, frontendPorts[])\<close> of section 6. The
  listeners on the given frontend ports are removed. A provider that reports absent
  listeners rejects the request when one of the ports has no listener.\<close>

definition svc_DeleteListeners ::
  "provider \<Rightarrow> delete_listeners_input \<Rightarrow> service \<Rightarrow> goerror option \<times> service" where
  "svc_DeleteListeners p i s =
     update_lb p OpDeleteListeners (ReqDeleteListeners i) (dl_LoadBalancerName i)
       (\<lambda>b. if reports_absent_listener p \<and>
                list_ex (\<lambda>port. port \<notin> LoadBalancerPort ` set (lb_Listeners b))
                  (dl_LoadBalancerPorts i)
             then Inl (AwsErr ''ListenerNotFound'' [])
             else Inr (b\<lparr>lb_Listeners :=
                          filter (\<lambda>l. LoadBalancerPort l \<notin> set (dl_LoadBalancerPorts i))
                            (lb_Listeners b)\<rparr>)) s"

text \<open>Modelled from the spec: \<open>RegisterInstances(name, instanceRefs[])\<close> of section 6;
  "membership is set-valued, not list-valued: adding twice is a no-op". A provider that
  rejects empty requests rejects a request that names no instance; every other request adds
  the named instances to the set.\<close>

definition svc_RegisterInstances ::
  "provider \<Rightarrow> register_input \<Rightarrow> service \<Rightarrow> goerror option \<times> service" where
  "svc_RegisterInstances p i s =
     update_lb p OpRegisterInstances (ReqRegisterInstances i) (reg_LoadBalancerName i)
       (\<lambda>b. if rejects_empty_instances p \<and> reg_Instances i = []
             then Inl (AwsErr ''ValidationError'' [])
             else Inr (b\<lparr>lb_Instances :=
                          lb_Instances b \<union> InstanceId ` set (reg_Instances i)\<rparr>)) s"

text \<open>Modelled from the spec: \<open>DeregisterInstances(name, instanceRefs[])\<close> of section 6;
  "removing an absent member is a no-op". A provider that rejects empty requests rejects a
  request that names no instance, and a provider that reports absent members rejects a
  request that names an instance that is not a member; a rejected request changes nothing.
  Every other request removes the named instances from the set.\<close>

definition svc_DeregisterInstances ::
  "provider \<Rightarrow> deregister_input \<Rightarrow> service \<Rightarrow> goerror option \<times> service" where
  "svc_DeregisterInstances p i s =
     update_lb p OpDeregisterInstances (ReqDeregisterInstances i) (dereg_LoadBalancerName i)
       (\<lambda>b. if rejects_empty_instances p \<and> dereg_Instances i = []
             then Inl (AwsErr ''ValidationError'' [])
             else if reports_absent_member p \<and>
                     list_ex (\<lambda>x. InstanceId x \<notin> lb_Instances b) (dereg_Instances i)
             then Inl (AwsErr ''InvalidInstance'' [])
             else Inr (b\<lparr>lb_Instances :=
                          lb_Instances b - InstanceId ` set (dereg_Instances i)\<rparr>)) s"

text \<open>Modelled from the spec: the descriptions of the named LBs, or the not-found condition
  of the first name that is unknown.\<close>

fun describe_all :: "(string \<rightharpoonup> lb) \<Rightarrow> string list \<Rightarrow> goerror + lb_description option list" where
  "describe_all m [] = Inr []"
| "describe_all m (n # ns) =
     (case m n of
        None \<Rightarrow> Inl (not_found n)
      | Some b \<Rightarrow>
          (case describe_all m ns of
             Inl e \<Rightarrow> Inl e
           | Inr ds \<Rightarrow> Inr (Some \<lparr>DNSName = Some (lb_DNSName b)\<rparr> # ds)))"

text \<open>Modelled from the spec:
  \<open>DescribeLoadBalancer(name) \<rightarrow> LoadBalancerDescription | NotFoundFault\<close> of section 6: a
  description, or a fault and no description.\<close>

definition svc_DescribeLoadBalancer ::
  "provider \<Rightarrow> describe_input \<Rightarrow> service
     \<Rightarrow> (describe_output option \<times> goerror option) \<times> service" where
  "svc_DescribeLoadBalancer p i s =
     (case fault p OpDescribeLoadBalancer of
        Some e \<Rightarrow> ((None, Some e), record_request (ReqDescribeLoadBalancer i) s)
      | None \<Rightarrow>
          (case describe_all (lbs s) (LoadBalancerNames i) of
             Inl e \<Rightarrow> ((None, Some e), record_request (ReqDescribeLoadBalancer i) s)
           | Inr ds \<Rightarrow>
               ((Some \<lparr>LoadBalancerDescriptions = ds\<rparr>, None),
                record_request (ReqDescribeLoadBalancer i) s)))"

text \<open>Modelled from the spec: the helper's client connected to the service of a provider,
  the SDK method of each name answering as the operation of section 6 it stands for.\<close>

definition remote_client :: "provider \<Rightarrow> service awsClient" where
  "remote_client p =
     \<lparr>CreateLoadBalancer = svc_CreateLoadBalancer p,
      ConfigureHealthCheck = svc_ConfigureHealthCheck p,
      DeleteLoadBalancerListeners = svc_DeleteListeners p,
      CreateLoadBalancerListeners = svc_CreateListeners p,
      RegisterInstancesWithLoadBalancer = svc_RegisterInstances p,
      DeregisterInstancesWithLoadBalancer = svc_DeregisterInstances p,
      DescribeLoadBalancers = svc_DescribeLoadBalancer p\<rparr>"

text \<open>A provider without faults that accepts every request the data model allows (deleting
  an absent listener, re-creating an identical one, a request that names no instance,
  deregistering an instance that is not a member), and one that answers a single operation
  with a fault.\<close>

definition reliable :: provider where
  "reliable =
     \<lparr>fault = (\<lambda>opn. None), reports_absent_listener = False, reports_duplicate_listener = False,
      rejects_empty_instances = False, reports_absent_member = False\<rparr>"

definition failing :: "operation \<Rightarrow> goerror \<Rightarrow> provider" where
  "failing opn e = reliable\<lparr>fault := (fault reliable)(opn := Some e)\<rparr>"

definition empty_account :: service where
  "empty_account = \<lparr>lbs = Map.empty, requests = []\<rparr>"

text \<open>What a caller can observe of a named LB: whether it has a listener on a frontend
  port, its listeners, and its membership set.\<close>

definition listeners_of :: "service \<Rightarrow> string \<Rightarrow> listener list" where
  "listeners_of s name = (case lbs s name of None \<Rightarrow> [] | Some b \<Rightarrow> lb_Listeners b)"

definition has_listener :: "service \<Rightarrow> string \<Rightarrow> int64 \<Rightarrow> bool" where
  "has_listener s name port = list_ex (\<lambda>l. LoadBalancerPort l = port) (listeners_of s name)"

definition members :: "service \<Rightarrow> string \<Rightarrow> string set" where
  "members s name = (case lbs s name of None \<Rightarrow> {} | Some b \<Rightarrow> lb_Instances b)"

text \<open>The account after \<open>CreateClassicELB("api-lb", ["subnet-a", "subnet-b"], 6443)\<close> on an
  empty account at a reliable provider.\<close>

definition provisioned :: service where
  "provisioned =
     snd (CreateClassicELB (remote_client reliable) ''api-lb'' [''subnet-a'', ''subnet-b''] 6443
            empty_account)"

text \<open>A client that does not touch any state and answers every \<open>DescribeLoadBalancers\<close>
  with a fixed pair of output and error; its other methods succeed.\<close>

definition answering :: "describe_output option \<times> goerror option \<Rightarrow> unit awsClient" where
  "answering a =
     \<lparr>CreateLoadBalancer = (\<lambda>i s. ((Some \<lparr>clb_DNSName = Some []\<rparr>, None), s)),
      ConfigureHealthCheck = (\<lambda>i s. (None, s)),
      DeleteLoadBalancerListeners = (\<lambda>i s. (None, s)),
      CreateLoadBalancerListeners = (\<lambda>i s. (None, s)),
      RegisterInstancesWithLoadBalancer = (\<lambda>i s. (None, s)),
      DeregisterInstancesWithLoadBalancer = (\<lambda>i s. (None, s)),
      DescribeLoadBalancers = (\<lambda>i s. (a, s))\<rparr>"

text \<open>A provider that raises the not-found condition for an absent listener, and one that
  rejects the creation of a listener identical to an existing one.\<close>

definition strict_delete :: provider where
  "strict_delete = reliable\<lparr>reports_absent_listener := True\<rparr>"

definition strict_create :: provider where
  "strict_create = reliable\<lparr>reports_duplicate_listener := True\<rparr>"

text \<open>A provider that rejects a request naming no instance and reports the deregistration
  of an instance that is not a member.\<close>

definition strict_members :: provider where
  "strict_members = reliable\<lparr>rejects_empty_instances := True, reports_absent_member := True\<rparr>"

text \<open>The account after \<open>CreateClassicELB("api-lb", ["subnet-a", "subnet-b"], 443)\<close> on an
  empty account at a reliable provider: its LB has a listener on port 443 and none on the
  control-plane port 6443.\<close>

definition private_account :: service where
  "private_account =
     snd (CreateClassicELB (remote_client reliable) ''api-lb'' [''subnet-a'', ''subnet-b''] 443
            empty_account)"

text \<open>The provisioned account after \<open>AddLoadBalancerInstances("api-lb", ["i-1", "i-2"])\<close>
  at a reliable provider.\<close>

definition with_members :: service where
  "with_members =
     snd (AddLoadBalancerInstances (remote_client reliable) ''api-lb'' [''i-1'', ''i-2'']
            provisioned)"

text \<open>An account whose LB forwards frontend port 6443 to backend port 8080.\<close>

definition remapped :: service where
  "remapped =
     \<lparr>lbs = [''api-lb'' \<mapsto>
        \<lparr>lb_DNSName = assign_dns ''api-lb'',
         lb_Listeners = [\<lparr>InstancePort = 8080, InstanceProtocol = ''tcp'', Protocol = ''tcp'',
                          LoadBalancerPort = 6443\<rparr>],
         lb_HealthCheck = None,
         lb_Instances = {}\<rparr>],
      requests = []\<rparr>"

section \<open>Basic facts\<close>

lemma decimal_6443: "decimal 6443 = ''6443''"
  by (simp add: decimal.simps [of 6443] decimal.simps [of 644] decimal.simps [of 64]
      decimal.simps [of 6] digit_char_def)

lemma fmt_d_6443: "fmt_d 6443 = ''6443''"
  by (simp add: fmt_d_def decimal_6443)

lemma sprintf_target_default: "sprintf_target ''HTTP'' 6443 ''/'' = ''HTTP:6443/''"
  by (simp add: sprintf_target_def fmt_d_6443)

lemma remote_client_simps [simp]:
  "CreateLoadBalancer (remote_client p) = svc_CreateLoadBalancer p"
  "ConfigureHealthCheck (remote_client p) = svc_ConfigureHealthCheck p"
  "DeleteLoadBalancerListeners (remote_client p) = svc_DeleteListeners p"
  "CreateLoadBalancerListeners (remote_client p) = svc_CreateListeners p"
  "RegisterInstancesWithLoadBalancer (remote_client p) = svc_RegisterInstances p"
  "DeregisterInstancesWithLoadBalancer (remote_client p) = svc_DeregisterInstances p"
  "DescribeLoadBalancers (remote_client p) = svc_DescribeLoadBalancer p"
  by (simp_all add: remote_client_def)

lemma fault_reliable [simp]: "fault reliable opn = None"
  by (simp add: reliable_def)

lemma lbs_record_request [simp]: "lbs (record_request r s) = lbs s"
  by (simp add: record_request_def)

lemma requests_record_request [simp]: "requests (record_request r s) = requests s @ [r]"
  by (simp add: record_request_def)

lemma find_Some_set: "find P xs = Some x \<Longrightarrow> x \<in> set xs"
  by (induction xs) (auto split: if_splits)

lemma has_listener_iff:
  "lbs s name = Some b \<Longrightarrow>
   has_listener s name port = (port \<in> LoadBalancerPort ` set (lb_Listeners b))"
  by (auto simp add: has_listener_def listeners_of_def list_ex_iff)

lemma InstanceId_instances_of [simp]: "InstanceId ` set (instances_of ids) = set ids"
  by (induction ids) auto

lemma provisioned_api_lb:
  "lbs provisioned ''api-lb'' = Some
     \<lparr>lb_DNSName = ''api-lb.elb.example.com'',
      lb_Listeners = [\<lparr>InstancePort = 6443, InstanceProtocol = ''tcp'', Protocol = ''tcp'',
                       LoadBalancerPort = 6443\<rparr>],
      lb_HealthCheck = Some \<lparr>HealthyThreshold = 2, Interval = 30, Target = ''HTTP:6443/'',
                             Timeout = 3, UnhealthyThreshold = 2\<rparr>,
      lb_Instances = {}\<rparr>"
  by (simp add: provisioned_def CreateClassicELB_def addHealthCheck_def sprintf_target_default
      svc_CreateLoadBalancer_def svc_ConfigureHealthCheck_def update_lb_def reliable_def
      empty_account_def assign_dns_def)

lemma remapped_api_lb:
  "lbs remapped ''api-lb'' = Some
     \<lparr>lb_DNSName = assign_dns ''api-lb'',
      lb_Listeners = [\<lparr>InstancePort = 8080, InstanceProtocol = ''tcp'', Protocol = ''tcp'',
                       LoadBalancerPort = 6443\<rparr>],
      lb_HealthCheck = None,
      lb_Instances = {}\<rparr>"
  by (simp add: remapped_def)

section \<open>What each method asks of the service\<close>

text \<open>
  \<open>SetLoadBalancerPrivate\<close>, \<open>SetLoadBalancerPublic\<close>, \<open>AddLoadBalancerInstances\<close> and
  \<open>RemoveInstancesFromLoadBalancer\<close> issue one request each and return its error as it is:
  none of them inspects the error.
\<close>

lemma SetLoadBalancerPrivate_request:
  "SetLoadBalancerPrivate c elbName s =
   DeleteLoadBalancerListeners c
     \<lparr>dl_LoadBalancerName = elbName, dl_LoadBalancerPorts = [6443]\<rparr> s"
  by (simp add: SetLoadBalancerPrivate_def removeListenersFromELB_def)

lemma SetLoadBalancerPublic_request:
  "SetLoadBalancerPublic c elbName listenerPort s =
   CreateLoadBalancerListeners c
     \<lparr>cl_Listeners = [\<lparr>InstancePort = listenerPort, InstanceProtocol = ''tcp'',
                        Protocol = ''tcp'', LoadBalancerPort = listenerPort\<rparr>],
      cl_LoadBalancerName = elbName\<rparr> s"
  by (simp add: SetLoadBalancerPublic_def addListenersToELB_def)

lemma DoesELBExist_awserr:
  assumes "DescribeLoadBalancers c \<lparr>LoadBalancerNames = [elbName]\<rparr> s =
             ((res, Some (AwsErr code msg)), s1)"
  shows "DoesELBExist c elbName s =
           (if code = ErrCodeAccessPointNotFoundException
            then (Return (False, '''', None), s1)
            else (Return (False, '''', Some (AwsErr code msg)), s1))"
  using assms by (simp add: DoesELBExist_def)

lemma DoesELBExist_found:
  assumes "fault p OpDescribeLoadBalancer = None" and "lbs s name = Some b"
  shows "DoesELBExist (remote_client p) name s =
         (Return (True, lb_DNSName b, None),
          record_request (ReqDescribeLoadBalancer \<lparr>LoadBalancerNames = [name]\<rparr>) s)"
  using assms by (simp add: DoesELBExist_def first_DNSName_def svc_DescribeLoadBalancer_def)

lemma DoesELBExist_absent:
  assumes "fault p OpDescribeLoadBalancer = None" and "lbs s name = None"
  shows "DoesELBExist (remote_client p) name s =
         (Return (False, '''', None),
          record_request (ReqDescribeLoadBalancer \<lparr>LoadBalancerNames = [name]\<rparr>) s)"
  using assms by (simp add: DoesELBExist_def svc_DescribeLoadBalancer_def not_found_def)

lemma SetLoadBalancerPrivate_remote:
  assumes "fault p OpDeleteListeners = None" and "lbs s name = Some b"
  shows "SetLoadBalancerPrivate (remote_client p) name s =
     (if reports_absent_listener p \<and> \<not> has_listener s name 6443
      then (Some (AwsErr ''ListenerNotFound'' []),
            record_request (ReqDeleteListeners
              \<lparr>dl_LoadBalancerName = name, dl_LoadBalancerPorts = [6443]\<rparr>) s)
      else (None,
            (record_request (ReqDeleteListeners
               \<lparr>dl_LoadBalancerName = name, dl_LoadBalancerPorts = [6443]\<rparr>) s)
              \<lparr>lbs := (lbs s)(name \<mapsto> b\<lparr>lb_Listeners :=
                  filter (\<lambda>l. LoadBalancerPort l \<noteq> 6443) (lb_Listeners b)\<rparr>)\<rparr>))"
  using assms
  by (auto simp add: SetLoadBalancerPrivate_request svc_DeleteListeners_def update_lb_def
      has_listener_def listeners_of_def list_ex_iff)

lemma SetLoadBalancerPrivate_effect:
  assumes "fault p OpDeleteListeners = None" and "lbs s name = Some b"
    and "SetLoadBalancerPrivate (remote_client p) name s = (e, s')"
  shows "\<exists>b'. lbs s' name = Some b' \<and> lb_DNSName b' = lb_DNSName b \<and>
           lb_Listeners b' = filter (\<lambda>l. LoadBalancerPort l \<noteq> 6443) (lb_Listeners b) \<and>
           e = (if reports_absent_listener p \<and> \<not> has_listener s name 6443
                then Some (AwsErr ''ListenerNotFound'' []) else None)"
proof (cases "reports_absent_listener p \<and> \<not> has_listener s name 6443")
  case True
  then have "6443 \<notin> LoadBalancerPort ` set (lb_Listeners b)"
    using assms(2) by (simp add: has_listener_iff)
  then have "filter (\<lambda>l. LoadBalancerPort l \<noteq> 6443) (lb_Listeners b) = lb_Listeners b"
    by (auto simp add: filter_id_conv)
  with True assms show ?thesis
    by (auto simp add: SetLoadBalancerPrivate_remote)
next
  case False
  with assms show ?thesis
    by (auto simp add: SetLoadBalancerPrivate_remote)
qed

lemma SetLoadBalancerPublic_remote:
  assumes "fault p OpCreateListeners = None" and "lbs s name = Some b"
  shows "SetLoadBalancerPublic (remote_client p) name port s =
     (case find (\<lambda>x. LoadBalancerPort x = port) (lb_Listeners b) of
        None \<Rightarrow>
          (None,
           (record_request (ReqCreateListeners
              \<lparr>cl_Listeners = [\<lparr>InstancePort = port, InstanceProtocol = ''tcp'',
                                 Protocol = ''tcp'', LoadBalancerPort = port\<rparr>],
               cl_LoadBalancerName = name\<rparr>) s)
             \<lparr>lbs := (lbs s)(name \<mapsto> b\<lparr>lb_Listeners := lb_Listeners b @
                [\<lparr>InstancePort = port, InstanceProtocol = ''tcp'',
                  Protocol = ''tcp'', LoadBalancerPort = port\<rparr>]\<rparr>)\<rparr>)
      | Some x \<Rightarrow>
          if x = \<lparr>InstancePort = port, InstanceProtocol = ''tcp'',
                   Protocol = ''tcp'', LoadBalancerPort = port\<rparr> \<and>
             \<not> reports_duplicate_listener p
          then (None,
             (record_request (ReqCreateListeners
              \<lparr>cl_Listeners = [\<lparr>InstancePort = port, InstanceProtocol = ''tcp'',
                                 Protocol = ''tcp'', LoadBalancerPort = port\<rparr>],
               cl_LoadBalancerName = name\<rparr>) s)\<lparr>lbs := lbs s\<rparr>)
          else (Some (AwsErr ''DuplicateListener'' []),
             record_request (ReqCreateListeners
              \<lparr>cl_Listeners = [\<lparr>InstancePort = port, InstanceProtocol = ''tcp'',
                                 Protocol = ''tcp'', LoadBalancerPort = port\<rparr>],
               cl_LoadBalancerName = name\<rparr>) s))"
  using assms
  by (auto simp add: SetLoadBalancerPublic_request svc_CreateListeners_def update_lb_def
      map_upd_triv split: option.splits)

lemma SetLoadBalancerPublic_keeps:
  assumes "lbs s name = Some b"
    and "SetLoadBalancerPublic (remote_client p) name port s = (e, s')"
  shows "\<exists>b'. lbs s' name = Some b' \<and> lb_DNSName b' = lb_DNSName b \<and>
           filter (\<lambda>l. LoadBalancerPort l \<noteq> port) (lb_Listeners b') =
           filter (\<lambda>l. LoadBalancerPort l \<noteq> port) (lb_Listeners b)"
proof (cases "fault p OpCreateListeners")
  case None
  from assms(2) show ?thesis
    unfolding SetLoadBalancerPublic_remote [OF None assms(1)]
    using assms(1) by (auto split: option.splits if_splits)
next
  case (Some f)
  with assms show ?thesis
    by (auto simp add: SetLoadBalancerPublic_request svc_CreateListeners_def update_lb_def)
qed

lemma AddLoadBalancerInstances_request:
  "AddLoadBalancerInstances c elbName instanceIds s =
   RegisterInstancesWithLoadBalancer c
     \<lparr>reg_Instances = instances_of instanceIds, reg_LoadBalancerName = elbName\<rparr> s"
  by (simp add: AddLoadBalancerInstances_def)

lemma RemoveInstancesFromLoadBalancer_request:
  "RemoveInstancesFromLoadBalancer c elbName instanceIds s =
   DeregisterInstancesWithLoadBalancer c
     \<lparr>dereg_Instances = instances_of instanceIds, dereg_LoadBalancerName = elbName\<rparr> s"
  by (simp add: RemoveInstancesFromLoadBalancer_def)

lemma instances_of_Nil [simp]: "(instances_of ids = []) = (ids = [])"
  by (cases ids) simp_all

lemma absent_instances_of [simp]:
  "list_ex (\<lambda>x. InstanceId x \<notin> M) (instances_of ids) = (\<not> set ids \<subseteq> M)"
  by (induction ids) auto

lemma AddLoadBalancerInstances_remote:
  "AddLoadBalancerInstances (remote_client p) name ids s =
     (case fault p OpRegisterInstances of
        Some e \<Rightarrow>
          (Some e, record_request (ReqRegisterInstances
             \<lparr>reg_Instances = instances_of ids, reg_LoadBalancerName = name\<rparr>) s)
      | None \<Rightarrow>
          (case lbs s name of
             None \<Rightarrow>
               (Some (not_found name), record_request (ReqRegisterInstances
                  \<lparr>reg_Instances = instances_of ids, reg_LoadBalancerName = name\<rparr>) s)
           | Some b \<Rightarrow>
               if rejects_empty_instances p \<and> ids = []
               then (Some (AwsErr ''ValidationError'' []), record_request (ReqRegisterInstances
                  \<lparr>reg_Instances = instances_of ids, reg_LoadBalancerName = name\<rparr>) s)
               else (None, (record_request (ReqRegisterInstances
                  \<lparr>reg_Instances = instances_of ids, reg_LoadBalancerName = name\<rparr>) s)
                  \<lparr>lbs := (lbs s)(name \<mapsto> b\<lparr>lb_Instances := lb_Instances b \<union> set ids\<rparr>)\<rparr>)))"
  by (auto simp add: AddLoadBalancerInstances_def svc_RegisterInstances_def update_lb_def
      split: option.splits)

lemma RemoveInstancesFromLoadBalancer_remote:
  "RemoveInstancesFromLoadBalancer (remote_client p) name ids s =
     (case fault p OpDeregisterInstances of
        Some e \<Rightarrow>
          (Some e, record_request (ReqDeregisterInstances
             \<lparr>dereg_Instances = instances_of ids, dereg_LoadBalancerName = name\<rparr>) s)
      | None \<Rightarrow>
          (case lbs s name of
             None \<Rightarrow>
               (Some (not_found name), record_request (ReqDeregisterInstances
                  \<lparr>dereg_Instances = instances_of ids, dereg_LoadBalancerName = name\<rparr>) s)
           | Some b \<Rightarrow>
               if rejects_empty_instances p \<and> ids = []
               then (Some (AwsErr ''ValidationError'' []), record_request (ReqDeregisterInstances
                  \<lparr>dereg_Instances = instances_of ids, dereg_LoadBalancerName = name\<rparr>) s)
               else if reports_absent_member p \<and> \<not> set ids \<subseteq> lb_Instances b
               then (Some (AwsErr ''InvalidInstance'' []), record_request (ReqDeregisterInstances
                  \<lparr>dereg_Instances = instances_of ids, dereg_LoadBalancerName = name\<rparr>) s)
               else (None, (record_request (ReqDeregisterInstances
                  \<lparr>dereg_Instances = instances_of ids, dereg_LoadBalancerName = name\<rparr>) s)
                  \<lparr>lbs := (lbs s)(name \<mapsto> b\<lparr>lb_Instances := lb_Instances b - set ids\<rparr>)\<rparr>)))"
  by (auto simp add: RemoveInstancesFromLoadBalancer_def svc_DeregisterInstances_def
      update_lb_def split: option.splits)

lemma private_account_api_lb:
  "lbs private_account ''api-lb'' = Some
     \<lparr>lb_DNSName = ''api-lb.elb.example.com'',
      lb_Listeners = [\<lparr>InstancePort = 443, InstanceProtocol = ''tcp'', Protocol = ''tcp'',
                       LoadBalancerPort = 443\<rparr>],
      lb_HealthCheck = Some \<lparr>HealthyThreshold = 2, Interval = 30, Target = ''HTTP:6443/'',
                             Timeout = 3, UnhealthyThreshold = 2\<rparr>,
      lb_Instances = {}\<rparr>"
  by (simp add: private_account_def CreateClassicELB_def addHealthCheck_def
      sprintf_target_default svc_CreateLoadBalancer_def svc_ConfigureHealthCheck_def
      update_lb_def empty_account_def assign_dns_def)

lemma with_members_api_lb:
  "lbs with_members ''api-lb'' = Some
     \<lparr>lb_DNSName = ''api-lb.elb.example.com'',
      lb_Listeners = [\<lparr>InstancePort = 6443, InstanceProtocol = ''tcp'', Protocol = ''tcp'',
                       LoadBalancerPort = 6443\<rparr>],
      lb_HealthCheck = Some \<lparr>HealthyThreshold = 2, Interval = 30, Target = ''HTTP:6443/'',
                             Timeout = 3, UnhealthyThreshold = 2\<rparr>,
      lb_Instances = {''i-1'', ''i-2''}\<rparr>"
  by (simp add: with_members_def AddLoadBalancerInstances_remote provisioned_api_lb
      reliable_def insert_commute)

section \<open>Exists: \<open>DoesELBExist\<close>\<close>

text \<open>
  C1. Exists is to have three outcomes: found gives \<open>(true, dnsName, nil)\<close>, the provider's
  not-found condition gives \<open>(false, "", nil)\<close>, and any other remote failure gives
  \<open>(false, "", err)\<close>. The first two hold, and so does the third for an error that is an
  \<open>awserr.Error\<close> (lemma \<open>DoesELBExist_awserr\<close>). For a failure that is not an
  \<open>awserr.Error\<close> the inner \<open>if\<close> is skipped and no \<open>return\<close> follows it: the
  method reaches \<open>*res.LoadBalancerDescriptions[0].DNSName\<close> with no result and panics
  instead of returning the error. The theorem runs the method on a provisioned account whose
  describe call fails with a plain error.
\<close>

theorem DoesELBExist_plain_error_panics:
  "fst (DoesELBExist
          (remote_client (failing OpDescribeLoadBalancer (PlainErr ''connection reset'')))
          ''api-lb'' provisioned) = Panic"
  by (simp add: DoesELBExist_def first_DNSName_def svc_DescribeLoadBalancer_def failing_def)

text \<open>
  C10. \<open>DoesELBExist\<close> is not total: when the describe call returns an error that is not
  an \<open>awserr.Error\<close>, or no error, and the result is nil or its list of descriptions is
  empty, the method panics on its last line instead of returning.
\<close>

theorem DoesELBExist_falls_through:
  assumes "DescribeLoadBalancers c \<lparr>LoadBalancerNames = [elbName]\<rparr> s = ((res, err), s1)"
    and "err = None \<or> err = Some (PlainErr msg)"
    and "res = None \<or> res = Some \<lparr>LoadBalancerDescriptions = []\<rparr>"
  shows "DoesELBExist c elbName s = (Panic, s1)"
  using assms by (auto simp add: DoesELBExist_def first_DNSName_def)

theorem DoesELBExist_falls_through_witness:
  "DoesELBExist (answering (None, Some (PlainErr ''connection reset''))) ''api-lb'' () =
     (Panic, ()) \<and>
   DoesELBExist (answering (Some \<lparr>LoadBalancerDescriptions = []\<rparr>, None)) ''api-lb'' () =
     (Panic, ())"
proof -
  have a: "DescribeLoadBalancers (answering (None, Some (PlainErr ''connection reset'')))
             \<lparr>LoadBalancerNames = [''api-lb'']\<rparr> () =
           ((None, Some (PlainErr ''connection reset'')), ())"
    by (simp add: answering_def)
  have b: "DescribeLoadBalancers (answering (Some \<lparr>LoadBalancerDescriptions = []\<rparr>, None))
             \<lparr>LoadBalancerNames = [''api-lb'']\<rparr> () =
           ((Some \<lparr>LoadBalancerDescriptions = []\<rparr>, None), ())"
    by (simp add: answering_def)
  show ?thesis
    using DoesELBExist_falls_through [OF a, of "''connection reset''"]
      DoesELBExist_falls_through [OF b, of "[]"]
    by simp
qed

section \<open>Provision: \<open>CreateClassicELB\<close>\<close>

text \<open>
  C2, as stated: a failed creation and a failed health-check attach are surfaced as two
  distinct typed errors, so that a caller can tell them apart. The method has no error type
  of its own; it returns the error of the failing call. With the same fault on the create
  call of one run and on the health-check call of another, the two runs return the same
  value, although the LB exists after the second run only.
\<close>

theorem CreateClassicELB_failures_indistinguishable:
  "fst (CreateClassicELB
          (remote_client (failing OpCreateLoadBalancer (AwsErr ''Throttling'' ''Rate exceeded'')))
          ''api-lb'' [''subnet-a'', ''subnet-b''] 6443 empty_account)
     = Return ('''', Some (AwsErr ''Throttling'' ''Rate exceeded'')) \<and>
   fst (CreateClassicELB
          (remote_client (failing OpConfigureHealthCheck (AwsErr ''Throttling'' ''Rate exceeded'')))
          ''api-lb'' [''subnet-a'', ''subnet-b''] 6443 empty_account)
     = Return ('''', Some (AwsErr ''Throttling'' ''Rate exceeded'')) \<and>
   lbs (snd (CreateClassicELB
          (remote_client (failing OpCreateLoadBalancer (AwsErr ''Throttling'' ''Rate exceeded'')))
          ''api-lb'' [''subnet-a'', ''subnet-b''] 6443 empty_account)) ''api-lb'' = None \<and>
   lbs (snd (CreateClassicELB
          (remote_client (failing OpConfigureHealthCheck (AwsErr ''Throttling'' ''Rate exceeded'')))
          ''api-lb'' [''subnet-a'', ''subnet-b''] 6443 empty_account)) ''api-lb'' \<noteq> None"
  by (simp add: CreateClassicELB_def addHealthCheck_def svc_CreateLoadBalancer_def
      svc_ConfigureHealthCheck_def update_lb_def failing_def reliable_def empty_account_def)

text \<open>
  C2, as amended: when the create request fails, \<open>CreateClassicELB\<close> returns the empty DNS
  name with the error of the create call, unchanged, and issues no further request; when the
  create request succeeds and the health-check attach fails, it returns the empty DNS name
  with the error of the health-check call, unchanged.
\<close>

theorem CreateClassicELB_error_passthrough:
  "(CreateLoadBalancer c
      \<lparr>clb_LoadBalancerName = elbName, clb_Subnets = subnets,
       clb_Listeners = [\<lparr>InstancePort = listenerPort, InstanceProtocol = ''tcp'',
                         Protocol = ''tcp'', LoadBalancerPort = listenerPort\<rparr>]\<rparr> s
      = ((out, Some e), s1)
    \<longrightarrow> CreateClassicELB c elbName subnets listenerPort s = (Return ('''', Some e), s1)) \<and>
   (CreateLoadBalancer c
      \<lparr>clb_LoadBalancerName = elbName, clb_Subnets = subnets,
       clb_Listeners = [\<lparr>InstancePort = listenerPort, InstanceProtocol = ''tcp'',
                         Protocol = ''tcp'', LoadBalancerPort = listenerPort\<rparr>]\<rparr> s
      = ((out, None), s1) \<and>
    ConfigureHealthCheck c
      \<lparr>chc_HealthCheck =
         \<lparr>HealthyThreshold = 2, Interval = 30, Target = ''HTTP:6443/'', Timeout = 3,
          UnhealthyThreshold = 2\<rparr>,
       chc_LoadBalancerName = elbName\<rparr> s1 = (Some e, s2)
    \<longrightarrow> CreateClassicELB c elbName subnets listenerPort s = (Return ('''', Some e), s2))"
  by (simp add: CreateClassicELB_def addHealthCheck_def sprintf_target_default)

theorem CreateClassicELB_error_passthrough_witness:
  "CreateClassicELB
     (remote_client (failing OpCreateLoadBalancer (AwsErr ''Throttling'' ''Rate exceeded'')))
     ''api-lb'' [''subnet-a'', ''subnet-b''] 6443 empty_account =
     (Return ('''', Some (AwsErr ''Throttling'' ''Rate exceeded'')),
      record_request (ReqCreateLoadBalancer
          \<lparr>clb_LoadBalancerName = ''api-lb'', clb_Subnets = [''subnet-a'', ''subnet-b''],
           clb_Listeners = [\<lparr>InstancePort = 6443, InstanceProtocol = ''tcp'',
                             Protocol = ''tcp'', LoadBalancerPort = 6443\<rparr>]\<rparr>) empty_account) \<and>
   fst (CreateClassicELB
     (remote_client (failing OpConfigureHealthCheck (PlainErr ''connection reset'')))
     ''api-lb'' [''subnet-a'', ''subnet-b''] 6443 empty_account) =
     Return ('''', Some (PlainErr ''connection reset''))"
proof -
  let ?i = "\<lparr>clb_LoadBalancerName = ''api-lb'', clb_Subnets = [''subnet-a'', ''subnet-b''],
           clb_Listeners = [\<lparr>InstancePort = 6443, InstanceProtocol = ''tcp'',
                             Protocol = ''tcp'', LoadBalancerPort = 6443\<rparr>]\<rparr>"
  let ?h = "\<lparr>chc_HealthCheck =
         \<lparr>HealthyThreshold = 2, Interval = 30, Target = ''HTTP:6443/'', Timeout = 3,
          UnhealthyThreshold = 2\<rparr>,
       chc_LoadBalancerName = ''api-lb''\<rparr>"
  let ?c1 = "remote_client (failing OpCreateLoadBalancer (AwsErr ''Throttling'' ''Rate exceeded''))"
  let ?c2 = "remote_client (failing OpConfigureHealthCheck (PlainErr ''connection reset''))"
  let ?s1 = "snd (CreateLoadBalancer ?c2 ?i empty_account)"
  have a: "CreateLoadBalancer ?c1 ?i empty_account =
      ((None, Some (AwsErr ''Throttling'' ''Rate exceeded'')),
       record_request (ReqCreateLoadBalancer ?i) empty_account)"
    by (simp add: svc_CreateLoadBalancer_def failing_def)
  have b: "CreateLoadBalancer ?c2 ?i empty_account =
      ((Some \<lparr>clb_DNSName = Some (assign_dns ''api-lb'')\<rparr>, None), ?s1)"
    by (simp add: svc_CreateLoadBalancer_def failing_def empty_account_def)
  have c: "ConfigureHealthCheck ?c2 ?h ?s1 =
      (Some (PlainErr ''connection reset''), snd (ConfigureHealthCheck ?c2 ?h ?s1))"
    by (simp add: svc_ConfigureHealthCheck_def update_lb_def failing_def)
  show ?thesis
    using CreateClassicELB_error_passthrough [THEN conjunct1, rule_format, OF a]
      CreateClassicELB_error_passthrough [THEN conjunct2, rule_format, OF conjI [OF b c]]
    by simp
qed

text \<open>
  C5. Whenever the create request succeeds, the next request of \<open>CreateClassicELB\<close> is the
  health-check configuration for the same LB with target \<open>HTTP:6443/\<close> (protocol HTTP,
  probe port 6443, path \<open>/\<close>), healthy threshold 2, unhealthy threshold 2, interval 30 and
  timeout 3, whatever listener port the caller gave: the state the method leaves is the
  state that request leaves, from the state after the creation.
\<close>

theorem CreateClassicELB_health_check:
  assumes "CreateLoadBalancer c
             \<lparr>clb_LoadBalancerName = elbName, clb_Subnets = subnets,
              clb_Listeners = [\<lparr>InstancePort = listenerPort, InstanceProtocol = ''tcp'',
                                Protocol = ''tcp'', LoadBalancerPort = listenerPort\<rparr>]\<rparr> s
           = ((out, None), s1)"
  shows "snd (CreateClassicELB c elbName subnets listenerPort s) =
         snd (ConfigureHealthCheck c
                \<lparr>chc_HealthCheck =
                   \<lparr>HealthyThreshold = 2, Interval = 30, Target = ''HTTP:6443/'', Timeout = 3,
                    UnhealthyThreshold = 2\<rparr>,
                 chc_LoadBalancerName = elbName\<rparr> s1)"
  using assms
  by (simp add: CreateClassicELB_def addHealthCheck_def sprintf_target_default
      split: prod.splits option.splits)

theorem CreateClassicELB_health_check_witness:
  "lbs (snd (CreateClassicELB (remote_client reliable) ''api-lb'' [''subnet-a'', ''subnet-b''] 8443
               empty_account)) ''api-lb'' =
   Some \<lparr>lb_DNSName = ''api-lb.elb.example.com'',
         lb_Listeners = [\<lparr>InstancePort = 8443, InstanceProtocol = ''tcp'', Protocol = ''tcp'',
                          LoadBalancerPort = 8443\<rparr>],
         lb_HealthCheck = Some \<lparr>HealthyThreshold = 2, Interval = 30, Target = ''HTTP:6443/'',
                                Timeout = 3, UnhealthyThreshold = 2\<rparr>,
         lb_Instances = {}\<rparr>"
proof -
  have created: "CreateLoadBalancer (remote_client reliable)
          \<lparr>clb_LoadBalancerName = ''api-lb'', clb_Subnets = [''subnet-a'', ''subnet-b''],
           clb_Listeners = [\<lparr>InstancePort = 8443, InstanceProtocol = ''tcp'',
                             Protocol = ''tcp'', LoadBalancerPort = 8443\<rparr>]\<rparr> empty_account
        = ((Some \<lparr>clb_DNSName = Some ''api-lb.elb.example.com''\<rparr>, None),
           \<lparr>lbs = [''api-lb'' \<mapsto> \<lparr>lb_DNSName = ''api-lb.elb.example.com'',
               lb_Listeners = [\<lparr>InstancePort = 8443, InstanceProtocol = ''tcp'',
                                Protocol = ''tcp'', LoadBalancerPort = 8443\<rparr>],
               lb_HealthCheck = None, lb_Instances = {}\<rparr>],
            requests = [ReqCreateLoadBalancer
              \<lparr>clb_LoadBalancerName = ''api-lb'', clb_Subnets = [''subnet-a'', ''subnet-b''],
               clb_Listeners = [\<lparr>InstancePort = 8443, InstanceProtocol = ''tcp'',
                             Protocol = ''tcp'', LoadBalancerPort = 8443\<rparr>]\<rparr>]\<rparr>)"
    by (simp add: svc_CreateLoadBalancer_def empty_account_def assign_dns_def
        record_request_def reliable_def)
  show ?thesis
    unfolding CreateClassicELB_health_check [OF created]
    by (simp add: svc_ConfigureHealthCheck_def update_lb_def reliable_def)
qed

text \<open>
  C9. When the create step succeeds and the health-check attach fails, \<open>CreateClassicELB\<close>
  returns the error without having issued any request but those two, no deletion among
  them, so that the created LB is still there: \<open>DoesELBExist\<close> then finds it, with the
  DNS name the provider assigned.
\<close>

theorem CreateClassicELB_partial_completion:
  assumes "fault p OpCreateLoadBalancer = None" and "fault p OpConfigureHealthCheck = Some e"
    and "fault p OpDescribeLoadBalancer = None" and "lbs s name = None"
    and "CreateClassicELB (remote_client p) name subnets port s = (r, s1)"
    and "DoesELBExist (remote_client p) name s1 = (x, s2)"
  shows "r = Return ('''', Some e) \<and>
         requests s1 = requests s @
           [ReqCreateLoadBalancer
              \<lparr>clb_LoadBalancerName = name, clb_Subnets = subnets,
               clb_Listeners = [\<lparr>InstancePort = port, InstanceProtocol = ''tcp'',
                                 Protocol = ''tcp'', LoadBalancerPort = port\<rparr>]\<rparr>,
            ReqConfigureHealthCheck
              \<lparr>chc_HealthCheck =
                 \<lparr>HealthyThreshold = 2, Interval = 30, Target = ''HTTP:6443/'', Timeout = 3,
                  UnhealthyThreshold = 2\<rparr>,
               chc_LoadBalancerName = name\<rparr>] \<and>
         x = Return (True, assign_dns name, None)"
proof -
  have run: "r = Return ('''', Some e)"
      "requests s1 = requests s @
           [ReqCreateLoadBalancer
              \<lparr>clb_LoadBalancerName = name, clb_Subnets = subnets,
               clb_Listeners = [\<lparr>InstancePort = port, InstanceProtocol = ''tcp'',
                                 Protocol = ''tcp'', LoadBalancerPort = port\<rparr>]\<rparr>,
            ReqConfigureHealthCheck
              \<lparr>chc_HealthCheck =
                 \<lparr>HealthyThreshold = 2, Interval = 30, Target = ''HTTP:6443/'', Timeout = 3,
                  UnhealthyThreshold = 2\<rparr>,
               chc_LoadBalancerName = name\<rparr>]"
      "lbs s1 name = Some \<lparr>lb_DNSName = assign_dns name,
          lb_Listeners = [\<lparr>InstancePort = port, InstanceProtocol = ''tcp'',
                                 Protocol = ''tcp'', LoadBalancerPort = port\<rparr>],
          lb_HealthCheck = None, lb_Instances = {}\<rparr>"
    using assms(1,2,4,5)
    by (auto simp add: CreateClassicELB_def addHealthCheck_def sprintf_target_default
        svc_CreateLoadBalancer_def svc_ConfigureHealthCheck_def update_lb_def)
  show ?thesis
    using run(1,2) assms(6) DoesELBExist_found [OF assms(3) run(3)] by simp
qed

theorem CreateClassicELB_partial_completion_witness:
  "fst (CreateClassicELB
     (remote_client (failing OpConfigureHealthCheck (PlainErr ''connection reset'')))
     ''api-lb'' [''subnet-a'', ''subnet-b''] 6443 empty_account) =
     Return ('''', Some (PlainErr ''connection reset'')) \<and>
   fst (DoesELBExist
     (remote_client (failing OpConfigureHealthCheck (PlainErr ''connection reset'')))
     ''api-lb''
     (snd (CreateClassicELB
       (remote_client (failing OpConfigureHealthCheck (PlainErr ''connection reset'')))
       ''api-lb'' [''subnet-a'', ''subnet-b''] 6443 empty_account))) =
     Return (True, ''api-lb.elb.example.com'', None)"
proof -
  let ?p = "failing OpConfigureHealthCheck (PlainErr ''connection reset'')"
  have f: "fault ?p OpCreateLoadBalancer = None"
      "fault ?p OpConfigureHealthCheck = Some (PlainErr ''connection reset'')"
      "fault ?p OpDescribeLoadBalancer = None"
    by (simp_all add: failing_def reliable_def)
  have fresh: "lbs empty_account ''api-lb'' = None"
    by (simp add: empty_account_def)
  show ?thesis
    using CreateClassicELB_partial_completion [OF f fresh prod.collapse [symmetric]
        prod.collapse [symmetric]]
    by (simp add: assign_dns_def)
qed

section \<open>SetPrivate and SetPublic\<close>

text \<open>
  C3, as stated: when the listener on port 6443 is already absent, \<open>SetLoadBalancerPrivate\<close>
  still succeeds, because the provider's not-found condition for that listener is treated as
  success. The method does not look at the error it returns. At a provider that raises the
  condition, the first call on a provisioned LB succeeds and removes the listener, and the
  second call returns the provider's error.
\<close>

theorem SetLoadBalancerPrivate_absent_listener_error:
  "fst (SetLoadBalancerPrivate (remote_client strict_delete) ''api-lb'' provisioned) = None \<and>
   \<not> has_listener (snd (SetLoadBalancerPrivate (remote_client strict_delete) ''api-lb'' provisioned))
        ''api-lb'' 6443 \<and>
   fst (SetLoadBalancerPrivate (remote_client strict_delete) ''api-lb''
          (snd (SetLoadBalancerPrivate (remote_client strict_delete) ''api-lb'' provisioned))) =
     Some (AwsErr ''ListenerNotFound'' [])"
proof -
  let ?s1 = "snd (SetLoadBalancerPrivate (remote_client strict_delete) ''api-lb'' provisioned)"
  have f: "fault strict_delete OpDeleteListeners = None"
    and r: "reports_absent_listener strict_delete"
    by (simp_all add: strict_delete_def reliable_def)
  have present: "has_listener provisioned ''api-lb'' 6443"
    by (simp add: has_listener_iff [OF provisioned_api_lb])
  have first:
    "fst (SetLoadBalancerPrivate (remote_client strict_delete) ''api-lb'' provisioned) = None"
    and s1: "lbs ?s1 ''api-lb'' = Some
     \<lparr>lb_DNSName = ''api-lb.elb.example.com'',
      lb_Listeners = [],
      lb_HealthCheck = Some \<lparr>HealthyThreshold = 2, Interval = 30, Target = ''HTTP:6443/'',
                             Timeout = 3, UnhealthyThreshold = 2\<rparr>,
      lb_Instances = {}\<rparr>"
    using present by (simp_all add: SetLoadBalancerPrivate_remote [OF f provisioned_api_lb])
  have absent: "\<not> has_listener ?s1 ''api-lb'' 6443"
    by (simp add: has_listener_iff [OF s1])
  have second: "fst (SetLoadBalancerPrivate (remote_client strict_delete) ''api-lb'' ?s1) =
      Some (AwsErr ''ListenerNotFound'' [])"
    using r absent by (simp add: SetLoadBalancerPrivate_remote [OF f s1])
  show ?thesis
    using first absent second by simp
qed

text \<open>
  C3, as amended. For every client, \<open>SetLoadBalancerPrivate\<close> issues one request, the
  deletion of the listener on port 6443 of the named LB, and returns the error of that
  request unchanged: it treats no condition of the service as success. For every existing
  LB at a service that answers the deletion without a transient fault,
  \<open>SetLoadBalancerPrivate\<close> twice in a row leaves the port-6443 listener absent both
  times; the call on an already absent listener returns success when the provider raises no
  not-found condition for that listener, and returns that condition as its error when the
  provider raises it.
\<close>

theorem SetLoadBalancerPrivate_twice:
  "SetLoadBalancerPrivate c elbName t =
     DeleteLoadBalancerListeners c
       \<lparr>dl_LoadBalancerName = elbName, dl_LoadBalancerPorts = [6443]\<rparr> t \<and>
   (fault p OpDeleteListeners = None \<and> lbs s name = Some b \<and>
    SetLoadBalancerPrivate (remote_client p) name s = (e, s') \<and>
    SetLoadBalancerPrivate (remote_client p) name s' = (e', s'') \<longrightarrow>
      \<not> has_listener s' name 6443 \<and> \<not> has_listener s'' name 6443 \<and>
      e = (if reports_absent_listener p \<and> \<not> has_listener s name 6443
           then Some (AwsErr ''ListenerNotFound'' []) else None) \<and>
      e' = (if reports_absent_listener p
            then Some (AwsErr ''ListenerNotFound'' []) else None))"
  (is "?request \<and> (?run \<longrightarrow> ?twice)")
proof (rule conjI)
  show ?request
    by (rule SetLoadBalancerPrivate_request)
  show "?run \<longrightarrow> ?twice"
  proof (rule impI)
    assume run: ?run
    then have f: "fault p OpDeleteListeners = None" and b: "lbs s name = Some b"
      and r1: "SetLoadBalancerPrivate (remote_client p) name s = (e, s')"
      and r2: "SetLoadBalancerPrivate (remote_client p) name s' = (e', s'')"
      by simp_all
    obtain b1 where b1: "lbs s' name = Some b1"
        "lb_Listeners b1 = filter (\<lambda>l. LoadBalancerPort l \<noteq> 6443) (lb_Listeners b)"
        "e = (if reports_absent_listener p \<and> \<not> has_listener s name 6443
              then Some (AwsErr ''ListenerNotFound'' []) else None)"
      using SetLoadBalancerPrivate_effect [OF f b r1] by auto
    have absent1: "\<not> has_listener s' name 6443"
      using b1(1,2) by (auto simp add: has_listener_iff)
    obtain b2 where b2: "lbs s'' name = Some b2"
        "lb_Listeners b2 = filter (\<lambda>l. LoadBalancerPort l \<noteq> 6443) (lb_Listeners b1)"
        "e' = (if reports_absent_listener p \<and> \<not> has_listener s' name 6443
               then Some (AwsErr ''ListenerNotFound'' []) else None)"
      using SetLoadBalancerPrivate_effect [OF f b1(1) r2] by auto
    have absent2: "\<not> has_listener s'' name 6443"
      using b2(1,2) by (auto simp add: has_listener_iff)
    show ?twice
      using absent1 absent2 b1(3) b2(3) by simp
  qed
qed

text \<open>
  The witness runs the two calls at a reliable provider from the provisioned account, whose
  LB has the listener, and at a provider that raises the condition from an account whose LB
  has no listener on port 6443.
\<close>

theorem SetLoadBalancerPrivate_twice_witness:
  "has_listener provisioned ''api-lb'' 6443 \<and>
   fst (SetLoadBalancerPrivate (remote_client reliable) ''api-lb'' provisioned) = None \<and>
   \<not> has_listener (snd (SetLoadBalancerPrivate (remote_client reliable) ''api-lb'' provisioned))
        ''api-lb'' 6443 \<and>
   fst (SetLoadBalancerPrivate (remote_client reliable) ''api-lb''
          (snd (SetLoadBalancerPrivate (remote_client reliable) ''api-lb'' provisioned))) = None \<and>
   \<not> has_listener (snd (SetLoadBalancerPrivate (remote_client reliable) ''api-lb''
          (snd (SetLoadBalancerPrivate (remote_client reliable) ''api-lb'' provisioned))))
        ''api-lb'' 6443 \<and>
   fst (SetLoadBalancerPrivate (remote_client strict_delete) ''api-lb'' private_account) =
     Some (AwsErr ''ListenerNotFound'' []) \<and>
   \<not> has_listener
        (snd (SetLoadBalancerPrivate (remote_client strict_delete) ''api-lb'' private_account))
        ''api-lb'' 6443"
proof -
  have f: "fault reliable OpDeleteListeners = None" and a: "\<not> reports_absent_listener reliable"
    and f': "fault strict_delete OpDeleteListeners = None"
    and a': "reports_absent_listener strict_delete"
    by (simp_all add: reliable_def strict_delete_def)
  have present: "has_listener provisioned ''api-lb'' 6443"
    by (simp add: has_listener_iff [OF provisioned_api_lb])
  have absent: "\<not> has_listener private_account ''api-lb'' 6443"
    by (simp add: has_listener_iff [OF private_account_api_lb])
  have first: "fst (SetLoadBalancerPrivate (remote_client reliable) ''api-lb'' provisioned) = None \<and>
   \<not> has_listener (snd (SetLoadBalancerPrivate (remote_client reliable) ''api-lb'' provisioned))
        ''api-lb'' 6443 \<and>
   fst (SetLoadBalancerPrivate (remote_client reliable) ''api-lb''
          (snd (SetLoadBalancerPrivate (remote_client reliable) ''api-lb'' provisioned))) = None \<and>
   \<not> has_listener (snd (SetLoadBalancerPrivate (remote_client reliable) ''api-lb''
          (snd (SetLoadBalancerPrivate (remote_client reliable) ''api-lb'' provisioned))))
        ''api-lb'' 6443"
    using SetLoadBalancerPrivate_twice [THEN conjunct2, rule_format,
        OF conjI [OF f conjI [OF provisioned_api_lb
          conjI [OF prod.collapse [symmetric] prod.collapse [symmetric]]]]] a
    by simp
  have second:
    "fst (SetLoadBalancerPrivate (remote_client strict_delete) ''api-lb'' private_account) =
       Some (AwsErr ''ListenerNotFound'' []) \<and>
     \<not> has_listener
        (snd (SetLoadBalancerPrivate (remote_client strict_delete) ''api-lb'' private_account))
        ''api-lb'' 6443"
    using SetLoadBalancerPrivate_twice [THEN conjunct2, rule_format,
        OF conjI [OF f' conjI [OF private_account_api_lb
          conjI [OF prod.collapse [symmetric] prod.collapse [symmetric]]]]] a' absent
    by simp
  show ?thesis
    using present first second by simp
qed

text \<open>
  C4, as stated: \<open>SetLoadBalancerPublic\<close> does not fail when a listener identical to the
  one it adds exists already, and returns a listener-conflict error of its own kind when the
  frontend port is taken by a different listener. The method returns the provider's answer
  as it is. At a provider that rejects duplicates, adding 6443/6443/tcp to a provisioned LB,
  which has that very listener, returns the provider's error; and adding it to an LB whose
  port 6443 forwards to backend port 8080 returns the same error value, so that the
  conflict is not told apart from the duplicate by the error.
\<close>

theorem SetLoadBalancerPublic_identical_listener_error:
  "listeners_of provisioned ''api-lb'' =
     [\<lparr>InstancePort = 6443, InstanceProtocol = ''tcp'', Protocol = ''tcp'',
       LoadBalancerPort = 6443\<rparr>] \<and>
   fst (SetLoadBalancerPublic (remote_client strict_create) ''api-lb'' 6443 provisioned) =
     Some (AwsErr ''DuplicateListener'' []) \<and>
   listeners_of remapped ''api-lb'' =
     [\<lparr>InstancePort = 8080, InstanceProtocol = ''tcp'', Protocol = ''tcp'',
       LoadBalancerPort = 6443\<rparr>] \<and>
   fst (SetLoadBalancerPublic (remote_client strict_create) ''api-lb'' 6443 remapped) =
     Some (AwsErr ''DuplicateListener'' [])"
proof -
  have f: "fault strict_create OpCreateListeners = None"
    and r: "reports_duplicate_listener strict_create"
    by (simp_all add: strict_create_def reliable_def)
  show ?thesis
    using r
    by (simp add: SetLoadBalancerPublic_remote [OF f provisioned_api_lb]
        SetLoadBalancerPublic_remote [OF f remapped_api_lb] listeners_of_def
        provisioned_api_lb remapped_api_lb)
qed

text \<open>
  C4, as amended. For every client, \<open>SetLoadBalancerPublic\<close> issues one request, the
  creation of the tcp listener from frontend port \<open>port\<close> to the same backend port on the
  named LB, and returns the error of that request unchanged. For every existing LB whose
  frontend port \<open>port\<close> is taken, at a service that answers the creation without a
  transient fault: when the listener on that port is identical to the one being added (same
  frontend port, same backend port, same protocol), \<open>SetLoadBalancerPublic\<close> does not
  fail if the provider accepts duplicates, and returns the provider's error if the provider
  rejects them; when the listener on that port has a different backend port or protocol,
  \<open>SetLoadBalancerPublic\<close> returns the listener-conflict error of the service, as the
  service gave it. In each case the listeners of the LB stay as they were.
\<close>

theorem SetLoadBalancerPublic_existing_listener:
  "SetLoadBalancerPublic c elbName listenerPort t =
     CreateLoadBalancerListeners c
       \<lparr>cl_Listeners = [\<lparr>InstancePort = listenerPort, InstanceProtocol = ''tcp'',
                          Protocol = ''tcp'', LoadBalancerPort = listenerPort\<rparr>],
        cl_LoadBalancerName = elbName\<rparr> t \<and>
   (fault p OpCreateListeners = None \<and> lbs s name = Some b \<and>
    find (\<lambda>x. LoadBalancerPort x = port) (lb_Listeners b) = Some x \<and>
    SetLoadBalancerPublic (remote_client p) name port s = (e, s') \<longrightarrow>
      e = (if x = \<lparr>InstancePort = port, InstanceProtocol = ''tcp'', Protocol = ''tcp'',
                    LoadBalancerPort = port\<rparr> \<and> \<not> reports_duplicate_listener p
           then None else Some (AwsErr ''DuplicateListener'' [])) \<and>
      listeners_of s' name = lb_Listeners b)"
  (is "?request \<and> (?run \<longrightarrow> ?answer)")
proof (rule conjI)
  show ?request
    by (rule SetLoadBalancerPublic_request)
  show "?run \<longrightarrow> ?answer"
  proof (rule impI)
    assume run: ?run
    then have f: "fault p OpCreateListeners = None" and b: "lbs s name = Some b"
      and x: "find (\<lambda>x. LoadBalancerPort x = port) (lb_Listeners b) = Some x"
      and r: "SetLoadBalancerPublic (remote_client p) name port s = (e, s')"
      by simp_all
    show ?answer
      using b x r unfolding SetLoadBalancerPublic_remote [OF f b]
      by (auto simp add: listeners_of_def split: if_splits)
  qed
qed

theorem SetLoadBalancerPublic_existing_listener_witness:
  "fst (SetLoadBalancerPublic (remote_client reliable) ''api-lb'' 6443 provisioned) = None \<and>
   listeners_of (snd (SetLoadBalancerPublic (remote_client reliable) ''api-lb'' 6443 provisioned))
     ''api-lb'' =
     [\<lparr>InstancePort = 6443, InstanceProtocol = ''tcp'', Protocol = ''tcp'',
       LoadBalancerPort = 6443\<rparr>] \<and>
   fst (SetLoadBalancerPublic (remote_client reliable) ''api-lb'' 6443 remapped) =
     Some (AwsErr ''DuplicateListener'' []) \<and>
   listeners_of (snd (SetLoadBalancerPublic (remote_client reliable) ''api-lb'' 6443 remapped))
     ''api-lb'' =
     [\<lparr>InstancePort = 8080, InstanceProtocol = ''tcp'', Protocol = ''tcp'',
       LoadBalancerPort = 6443\<rparr>]"
proof -
  have f: "fault reliable OpCreateListeners = None"
    and dup: "\<not> reports_duplicate_listener reliable"
    by (simp_all add: reliable_def)
  have same: "find (\<lambda>x. LoadBalancerPort x = 6443)
      (lb_Listeners \<lparr>lb_DNSName = ''api-lb.elb.example.com'',
         lb_Listeners = [\<lparr>InstancePort = 6443, InstanceProtocol = ''tcp'', Protocol = ''tcp'',
                          LoadBalancerPort = 6443\<rparr>],
         lb_HealthCheck = Some \<lparr>HealthyThreshold = 2, Interval = 30, Target = ''HTTP:6443/'',
                                Timeout = 3, UnhealthyThreshold = 2\<rparr>,
         lb_Instances = {}\<rparr>) =
      Some \<lparr>InstancePort = 6443, InstanceProtocol = ''tcp'', Protocol = ''tcp'',
            LoadBalancerPort = 6443\<rparr>"
    by simp
  have other: "find (\<lambda>x. LoadBalancerPort x = 6443)
      (lb_Listeners \<lparr>lb_DNSName = assign_dns ''api-lb'',
         lb_Listeners = [\<lparr>InstancePort = 8080, InstanceProtocol = ''tcp'', Protocol = ''tcp'',
                          LoadBalancerPort = 6443\<rparr>],
         lb_HealthCheck = None,
         lb_Instances = {}\<rparr>) =
      Some \<lparr>InstancePort = 8080, InstanceProtocol = ''tcp'', Protocol = ''tcp'',
            LoadBalancerPort = 6443\<rparr>"
    by simp
  have "fst (SetLoadBalancerPublic (remote_client reliable) ''api-lb'' 6443 provisioned) = None \<and>
     listeners_of (snd (SetLoadBalancerPublic (remote_client reliable) ''api-lb'' 6443
       provisioned)) ''api-lb'' =
     [\<lparr>InstancePort = 6443, InstanceProtocol = ''tcp'', Protocol = ''tcp'',
       LoadBalancerPort = 6443\<rparr>]"
    using SetLoadBalancerPublic_existing_listener [THEN conjunct2, rule_format,
        OF conjI [OF f conjI [OF provisioned_api_lb
          conjI [OF same prod.collapse [symmetric]]]]] dup
    by simp
  moreover have "fst (SetLoadBalancerPublic (remote_client reliable) ''api-lb'' 6443 remapped) =
     Some (AwsErr ''DuplicateListener'' []) \<and>
     listeners_of (snd (SetLoadBalancerPublic (remote_client reliable) ''api-lb'' 6443 remapped))
     ''api-lb'' =
     [\<lparr>InstancePort = 8080, InstanceProtocol = ''tcp'', Protocol = ''tcp'',
       LoadBalancerPort = 6443\<rparr>]"
    using SetLoadBalancerPublic_existing_listener [THEN conjunct2, rule_format,
        OF conjI [OF f conjI [OF remapped_api_lb
          conjI [OF other prod.collapse [symmetric]]]]]
    by simp
  ultimately show ?thesis
    by simp
qed

text \<open>
  C6. \<open>SetLoadBalancerPublic\<close> issues the creation of the tcp listener from frontend
  port \<open>port\<close> to the same backend port, and \<open>SetLoadBalancerPrivate\<close> the deletion of
  the listener on port 6443, for every client. For every provisioned LB and a service that
  answers the deletion and the lookup without a fault: after
  \<open>SetLoadBalancerPublic(name, 6443)\<close> and then \<open>SetLoadBalancerPrivate(name)\<close>,
  \<open>DoesELBExist\<close> reports the LB present, with its DNS name, and the LB has no listener
  on port 6443; the listeners left are those the LB had on the other ports. A successful
  \<open>SetLoadBalancerPublic\<close> leaves the 6443 to 6443 tcp listener on the LB; on an LB with
  no listener on \<open>port\<close>, at a service that answers the creation,
  \<open>SetLoadBalancerPublic(name, port)\<close> succeeds and adds the tcp listener from \<open>port\<close>
  to \<open>port\<close> after the listeners the LB had. From the
  private state (no listener on port 6443), when the service answers the creation too,
  \<open>SetLoadBalancerPublic\<close> succeeds and adds that listener after the ones the LB had,
  \<open>SetLoadBalancerPrivate\<close> succeeds, and the listeners are again the ones the LB had:
  the pair is a round trip.
\<close>

theorem SetLoadBalancerPublic_then_Private:
  "SetLoadBalancerPublic c elbName listenerPort t =
     CreateLoadBalancerListeners c
       \<lparr>cl_Listeners = [\<lparr>InstancePort = listenerPort, InstanceProtocol = ''tcp'',
                          Protocol = ''tcp'', LoadBalancerPort = listenerPort\<rparr>],
        cl_LoadBalancerName = elbName\<rparr> t \<and>
   SetLoadBalancerPrivate c elbName t =
     DeleteLoadBalancerListeners c
       \<lparr>dl_LoadBalancerName = elbName, dl_LoadBalancerPorts = [6443]\<rparr> t \<and>
   (fault p OpCreateListeners = None \<and> lbs s name = Some b \<and> \<not> has_listener s name port \<longrightarrow>
      fst (SetLoadBalancerPublic (remote_client p) name port s) = None \<and>
      listeners_of (snd (SetLoadBalancerPublic (remote_client p) name port s)) name =
        lb_Listeners b @
          [\<lparr>InstancePort = port, InstanceProtocol = ''tcp'', Protocol = ''tcp'',
            LoadBalancerPort = port\<rparr>]) \<and>
   (fault p OpDeleteListeners = None \<and> fault p OpDescribeLoadBalancer = None \<and>
    lbs s name = Some b \<and>
    SetLoadBalancerPublic (remote_client p) name 6443 s = (e1, s1) \<and>
    SetLoadBalancerPrivate (remote_client p) name s1 = (e2, s2) \<and>
    DoesELBExist (remote_client p) name s2 = (r, s3) \<longrightarrow>
      r = Return (True, lb_DNSName b, None) \<and>
      \<not> has_listener s2 name 6443 \<and> \<not> has_listener s3 name 6443 \<and>
      listeners_of s3 name = filter (\<lambda>l. LoadBalancerPort l \<noteq> 6443) (lb_Listeners b) \<and>
      (e1 = None \<longrightarrow>
         \<lparr>InstancePort = 6443, InstanceProtocol = ''tcp'', Protocol = ''tcp'',
          LoadBalancerPort = 6443\<rparr> \<in> set (listeners_of s1 name)) \<and>
      (fault p OpCreateListeners = None \<and> \<not> has_listener s name 6443 \<longrightarrow>
         e1 = None \<and>
         listeners_of s1 name = lb_Listeners b @
           [\<lparr>InstancePort = 6443, InstanceProtocol = ''tcp'', Protocol = ''tcp'',
             LoadBalancerPort = 6443\<rparr>] \<and>
         e2 = None \<and>
         listeners_of s3 name = lb_Listeners b))"
  (is "?public \<and> ?private \<and> (?free \<longrightarrow> ?adds) \<and> (?run \<longrightarrow> ?trip)")
proof (intro conjI)
  show ?public
    by (rule SetLoadBalancerPublic_request)
  show ?private
    by (rule SetLoadBalancerPrivate_request)
  show "?free \<longrightarrow> ?adds"
  proof (rule impI)
    assume free: ?free
    then have fc: "fault p OpCreateListeners = None" and b: "lbs s name = Some b"
      and absent: "\<not> has_listener s name port"
      by simp_all
    have "port \<notin> LoadBalancerPort ` set (lb_Listeners b)"
      using absent b by (simp add: has_listener_iff)
    then have "find (\<lambda>x. LoadBalancerPort x = port) (lb_Listeners b) = None"
      by (auto simp add: find_None_iff)
    then show ?adds
      by (simp add: SetLoadBalancerPublic_remote [OF fc b] listeners_of_def)
  qed
  show "?run \<longrightarrow> ?trip"
  proof (rule impI)
    assume run: ?run
    then have fd: "fault p OpDeleteListeners = None"
      and fq: "fault p OpDescribeLoadBalancer = None"
      and b: "lbs s name = Some b"
      and r1: "SetLoadBalancerPublic (remote_client p) name 6443 s = (e1, s1)"
      and r2: "SetLoadBalancerPrivate (remote_client p) name s1 = (e2, s2)"
      and r3: "DoesELBExist (remote_client p) name s2 = (r, s3)"
      by simp_all
    obtain b1 where b1: "lbs s1 name = Some b1" "lb_DNSName b1 = lb_DNSName b"
        "filter (\<lambda>l. LoadBalancerPort l \<noteq> 6443) (lb_Listeners b1) =
         filter (\<lambda>l. LoadBalancerPort l \<noteq> 6443) (lb_Listeners b)"
      using SetLoadBalancerPublic_keeps [OF b r1] by auto
    obtain b2 where b2: "lbs s2 name = Some b2" "lb_DNSName b2 = lb_DNSName b1"
        "lb_Listeners b2 = filter (\<lambda>l. LoadBalancerPort l \<noteq> 6443) (lb_Listeners b1)"
        "e2 = (if reports_absent_listener p \<and> \<not> has_listener s1 name 6443
               then Some (AwsErr ''ListenerNotFound'' []) else None)"
      using SetLoadBalancerPrivate_effect [OF fd b1(1) r2] by auto
    have found: "r = Return (True, lb_DNSName b2, None)" and s3: "lbs s3 = lbs s2"
      using r3 DoesELBExist_found [OF fq b2(1)] by auto
    have left: "listeners_of s3 name =
        filter (\<lambda>l. LoadBalancerPort l \<noteq> 6443) (lb_Listeners b)"
      using b1 b2 s3 by (simp add: listeners_of_def)
    have added: "\<lparr>InstancePort = 6443, InstanceProtocol = ''tcp'', Protocol = ''tcp'',
               LoadBalancerPort = 6443\<rparr> \<in> set (listeners_of s1 name)" if "e1 = None"
    proof (cases "fault p OpCreateListeners")
      case None
      from r1 that show ?thesis
        unfolding SetLoadBalancerPublic_remote [OF None b]
        using b
        by (auto simp add: listeners_of_def dest: find_Some_set split: option.splits if_splits)
    next
      case (Some f)
      with r1 that show ?thesis
        by (auto simp add: SetLoadBalancerPublic_request svc_CreateListeners_def update_lb_def)
    qed
    have trip: "e1 = None \<and>
         listeners_of s1 name = lb_Listeners b @
           [\<lparr>InstancePort = 6443, InstanceProtocol = ''tcp'', Protocol = ''tcp'',
             LoadBalancerPort = 6443\<rparr>] \<and>
         e2 = None \<and>
         listeners_of s3 name = lb_Listeners b"
      if fc: "fault p OpCreateListeners = None" and closed: "\<not> has_listener s name 6443"
    proof -
      have free: "6443 \<notin> LoadBalancerPort ` set (lb_Listeners b)"
        using closed b by (simp add: has_listener_iff)
      then have none: "find (\<lambda>x. LoadBalancerPort x = 6443) (lb_Listeners b) = None"
        by (auto simp add: find_None_iff)
      have same: "filter (\<lambda>l. LoadBalancerPort l \<noteq> 6443) (lb_Listeners b) = lb_Listeners b"
        using free by (auto simp add: filter_id_conv)
      have pub: "e1 = None" "listeners_of s1 name = lb_Listeners b @
           [\<lparr>InstancePort = 6443, InstanceProtocol = ''tcp'', Protocol = ''tcp'',
             LoadBalancerPort = 6443\<rparr>]"
        using r1 unfolding SetLoadBalancerPublic_remote [OF fc b] none
        by (auto simp add: listeners_of_def)
      have "has_listener s1 name 6443"
        using pub(2) by (simp add: has_listener_def)
      then have "e2 = None"
        using b2(4) by simp
      then show ?thesis
        using pub left same by simp
    qed
    show ?trip
      using b1 b2 found s3 added left trip
      by (auto simp add: has_listener_def listeners_of_def list_ex_iff)
  qed
qed

text \<open>
  The witness starts from an account whose LB has a listener on port 443 and none on port
  6443: \<open>SetLoadBalancerPublic\<close> adds the 6443 listener, \<open>SetLoadBalancerPrivate\<close>
  removes it and leaves the listener on port 443, and the LB is still found.
\<close>

theorem SetLoadBalancerPublic_then_Private_witness:
  "\<not> has_listener private_account ''api-lb'' 6443 \<and>
   fst (SetLoadBalancerPublic (remote_client reliable) ''api-lb'' 6443 private_account) = None \<and>
   listeners_of (snd (SetLoadBalancerPublic (remote_client reliable) ''api-lb'' 6443
                        private_account)) ''api-lb'' =
     [\<lparr>InstancePort = 443, InstanceProtocol = ''tcp'', Protocol = ''tcp'', LoadBalancerPort = 443\<rparr>,
      \<lparr>InstancePort = 6443, InstanceProtocol = ''tcp'', Protocol = ''tcp'',
       LoadBalancerPort = 6443\<rparr>] \<and>
   fst (SetLoadBalancerPrivate (remote_client reliable) ''api-lb''
     (snd (SetLoadBalancerPublic (remote_client reliable) ''api-lb'' 6443 private_account))) =
     None \<and>
   fst (DoesELBExist (remote_client reliable) ''api-lb''
     (snd (SetLoadBalancerPrivate (remote_client reliable) ''api-lb''
       (snd (SetLoadBalancerPublic (remote_client reliable) ''api-lb'' 6443 private_account))))) =
     Return (True, ''api-lb.elb.example.com'', None) \<and>
   \<not> has_listener
     (snd (DoesELBExist (remote_client reliable) ''api-lb''
       (snd (SetLoadBalancerPrivate (remote_client reliable) ''api-lb''
         (snd (SetLoadBalancerPublic (remote_client reliable) ''api-lb'' 6443 private_account))))))
     ''api-lb'' 6443 \<and>
   listeners_of
     (snd (DoesELBExist (remote_client reliable) ''api-lb''
       (snd (SetLoadBalancerPrivate (remote_client reliable) ''api-lb''
         (snd (SetLoadBalancerPublic (remote_client reliable) ''api-lb'' 6443 private_account))))))
     ''api-lb'' =
     [\<lparr>InstancePort = 443, InstanceProtocol = ''tcp'', Protocol = ''tcp'', LoadBalancerPort = 443\<rparr>]"
proof -
  have f: "fault reliable OpDeleteListeners = None" "fault reliable OpDescribeLoadBalancer = None"
      "fault reliable OpCreateListeners = None"
    by (simp_all add: reliable_def)
  have closed: "\<not> has_listener private_account ''api-lb'' 6443"
    by (simp add: has_listener_iff [OF private_account_api_lb])
  show ?thesis
    using SetLoadBalancerPublic_then_Private [THEN conjunct2, THEN conjunct2, THEN conjunct2,
        rule_format,
        OF conjI [OF f(1) conjI [OF f(2) conjI [OF private_account_api_lb
          conjI [OF prod.collapse [symmetric]
            conjI [OF prod.collapse [symmetric] prod.collapse [symmetric]]]]]]]
      f(3) closed
    by simp
qed

section \<open>Membership: \<open>AddLoadBalancerInstances\<close> and \<open>RemoveInstancesFromLoadBalancer\<close>\<close>

text \<open>
  C7. \<open>AddLoadBalancerInstances\<close> is idempotent over the membership set: a second call
  with the same instance identifiers leaves every LB, and so the membership set, as the
  first call left it, and returns what the first call returned. The members an LB had
  before are still members after the call, and a successful call leaves exactly the former
  members and the given identifiers, a repeated identifier counting once.
\<close>

theorem AddLoadBalancerInstances_idempotent:
  assumes "AddLoadBalancerInstances (remote_client p) name ids s = (e1, s1)"
    and "AddLoadBalancerInstances (remote_client p) name ids s1 = (e2, s2)"
  shows "members s2 name = members s1 name \<and> lbs s2 = lbs s1 \<and> e2 = e1 \<and>
         members s name \<subseteq> members s1 name \<and>
         (e1 = None \<longrightarrow> members s1 name = members s name \<union> set ids)"
proof (cases "fault p OpRegisterInstances")
  case (Some f)
  have "AddLoadBalancerInstances (remote_client p) name ids t =
          (Some f, record_request (ReqRegisterInstances
             \<lparr>reg_Instances = instances_of ids, reg_LoadBalancerName = name\<rparr>) t)" for t
    by (simp add: AddLoadBalancerInstances_remote Some)
  with assms show ?thesis
    by (auto simp add: members_def)
next
  case None
  show ?thesis
  proof (cases "lbs s name")
    case absent: None
    have "AddLoadBalancerInstances (remote_client p) name ids t =
            (Some (not_found name), record_request (ReqRegisterInstances
               \<lparr>reg_Instances = instances_of ids, reg_LoadBalancerName = name\<rparr>) t)"
      if "lbs t name = None" for t
      using that by (simp add: AddLoadBalancerInstances_remote None)
    from this [of s] this [of s1] assms absent show ?thesis
      by (auto simp add: members_def)
  next
    case (Some b)
    show ?thesis
    proof (cases "rejects_empty_instances p \<and> ids = []")
      case True
      have "AddLoadBalancerInstances (remote_client p) name ids t =
              (Some (AwsErr ''ValidationError'' []), record_request (ReqRegisterInstances
                 \<lparr>reg_Instances = instances_of ids, reg_LoadBalancerName = name\<rparr>) t)"
        if "lbs t name = Some b" for t
        using that True by (simp add: AddLoadBalancerInstances_remote None)
      from this [of s] this [of s1] assms Some show ?thesis
        by (auto simp add: members_def)
    next
      case False
      with Some None assms(1) have s1: "e1 = None"
          "lbs s1 = (lbs s)(name \<mapsto> b\<lparr>lb_Instances := lb_Instances b \<union> set ids\<rparr>)"
        by (auto simp add: AddLoadBalancerInstances_remote)
      with False None assms(2) have s2: "e2 = None"
          "lbs s2 = (lbs s1)(name \<mapsto>
             b\<lparr>lb_Instances := lb_Instances b \<union> set ids \<union> set ids\<rparr>)"
        by (auto simp add: AddLoadBalancerInstances_remote)
      have "lb_Instances b \<union> set ids \<union> set ids = lb_Instances b \<union> set ids"
        by auto
      with s1 s2 Some show ?thesis
        by (simp add: members_def)
    qed
  qed
qed

theorem AddLoadBalancerInstances_idempotent_witness:
  "members (snd (AddLoadBalancerInstances (remote_client reliable) ''api-lb''
      [''i-1'', ''i-2'', ''i-1''] provisioned)) ''api-lb'' = {''i-1'', ''i-2''} \<and>
   members (snd (AddLoadBalancerInstances (remote_client reliable) ''api-lb''
      [''i-1'', ''i-2'', ''i-1'']
     (snd (AddLoadBalancerInstances (remote_client reliable) ''api-lb''
        [''i-1'', ''i-2'', ''i-1''] provisioned)))) ''api-lb'' = {''i-1'', ''i-2''}"
proof -
  have ok: "fst (AddLoadBalancerInstances (remote_client reliable) ''api-lb''
      [''i-1'', ''i-2'', ''i-1''] provisioned) = None"
    by (simp add: AddLoadBalancerInstances_remote provisioned_api_lb reliable_def)
  have none: "members provisioned ''api-lb'' = {}"
    by (simp add: members_def provisioned_api_lb)
  show ?thesis
    using AddLoadBalancerInstances_idempotent [OF prod.collapse [symmetric]
        prod.collapse [symmetric], of reliable "''api-lb''" "[''i-1'', ''i-2'', ''i-1'']"
        provisioned]
      ok none
    by auto
qed

text \<open>
  C8, as stated: with an empty list of instance refs \<open>AddLoadBalancerInstances\<close> and
  \<open>RemoveInstancesFromLoadBalancer\<close> succeed, and so does
  \<open>RemoveInstancesFromLoadBalancer\<close> on refs that are not members. Neither method has a
  branch for the empty list, and neither looks at the error it returns. At a provider that
  rejects a request naming no instance and reports the deregistration of a non-member, on an
  LB with the members i-1 and i-2, the three calls return the provider's errors.
\<close>

theorem empty_and_absent_instances_rejected:
  "members with_members ''api-lb'' = {''i-1'', ''i-2''} \<and>
   fst (AddLoadBalancerInstances (remote_client strict_members) ''api-lb'' [] with_members) =
     Some (AwsErr ''ValidationError'' []) \<and>
   fst (RemoveInstancesFromLoadBalancer (remote_client strict_members) ''api-lb'' [] with_members) =
     Some (AwsErr ''ValidationError'' []) \<and>
   fst (RemoveInstancesFromLoadBalancer (remote_client strict_members) ''api-lb'' [''i-9'']
          with_members) =
     Some (AwsErr ''InvalidInstance'' [])"
  by (simp add: AddLoadBalancerInstances_remote RemoveInstancesFromLoadBalancer_remote
      with_members_api_lb members_def strict_members_def reliable_def)

text \<open>
  C8, as amended. For every client and every list, the empty one too,
  \<open>AddLoadBalancerInstances\<close> issues one register request and
  \<open>RemoveInstancesFromLoadBalancer\<close> one deregister request, with one instance per ref,
  and each returns the error of its request unchanged. For every existing LB at a service
  that answers the two operations without a transient fault: with an empty list both
  methods succeed when the provider accepts a request that names no instance, and return the
  provider's error when it rejects one; \<open>RemoveInstancesFromLoadBalancer\<close> on a
  non-empty list of refs none of which is a member succeeds when the provider raises no
  condition for a non-member, and returns the provider's error when it raises one. In every
  one of these cases the LBs of the account, and so the membership set, are left unchanged.
\<close>

theorem empty_and_absent_instances:
  "AddLoadBalancerInstances c elbName instanceIds t =
     RegisterInstancesWithLoadBalancer c
       \<lparr>reg_Instances = instances_of instanceIds, reg_LoadBalancerName = elbName\<rparr> t \<and>
   AddLoadBalancerInstances c elbName [] t =
     RegisterInstancesWithLoadBalancer c
       \<lparr>reg_Instances = [], reg_LoadBalancerName = elbName\<rparr> t \<and>
   RemoveInstancesFromLoadBalancer c elbName instanceIds t =
     DeregisterInstancesWithLoadBalancer c
       \<lparr>dereg_Instances = instances_of instanceIds, dereg_LoadBalancerName = elbName\<rparr> t \<and>
   RemoveInstancesFromLoadBalancer c elbName [] t =
     DeregisterInstancesWithLoadBalancer c
       \<lparr>dereg_Instances = [], dereg_LoadBalancerName = elbName\<rparr> t \<and>
   (fault p OpRegisterInstances = None \<and> fault p OpDeregisterInstances = None \<and>
    lbs s name = Some b \<longrightarrow>
      fst (AddLoadBalancerInstances (remote_client p) name [] s) =
        (if rejects_empty_instances p then Some (AwsErr ''ValidationError'' []) else None) \<and>
      lbs (snd (AddLoadBalancerInstances (remote_client p) name [] s)) = lbs s \<and>
      fst (RemoveInstancesFromLoadBalancer (remote_client p) name [] s) =
        (if rejects_empty_instances p then Some (AwsErr ''ValidationError'' []) else None) \<and>
      lbs (snd (RemoveInstancesFromLoadBalancer (remote_client p) name [] s)) = lbs s \<and>
      (ids \<noteq> [] \<and> set ids \<inter> members s name = {} \<longrightarrow>
         fst (RemoveInstancesFromLoadBalancer (remote_client p) name ids s) =
           (if reports_absent_member p then Some (AwsErr ''InvalidInstance'' []) else None) \<and>
         lbs (snd (RemoveInstancesFromLoadBalancer (remote_client p) name ids s)) = lbs s))"
  (is "?add \<and> ?add_empty \<and> ?remove \<and> ?remove_empty \<and> (?run \<longrightarrow> ?answer)")
proof (intro conjI)
  show ?add
    by (rule AddLoadBalancerInstances_request)
  show ?add_empty
    by (simp add: AddLoadBalancerInstances_request)
  show ?remove
    by (rule RemoveInstancesFromLoadBalancer_request)
  show ?remove_empty
    by (simp add: RemoveInstancesFromLoadBalancer_request)
  show "?run \<longrightarrow> ?answer"
  proof (rule impI)
    assume run: ?run
    then have f: "fault p OpRegisterInstances = None" "fault p OpDeregisterInstances = None"
      and b: "lbs s name = Some b"
      by simp_all
    have strangers: "\<not> set ids \<subseteq> lb_Instances b" "lb_Instances b - set ids = lb_Instances b"
      if "ids \<noteq> []" and "set ids \<inter> members s name = {}"
    proof -
      from that(1) obtain i where "i \<in> set ids"
        by (cases ids) auto
      with that(2) b show "\<not> set ids \<subseteq> lb_Instances b"
        by (auto simp add: members_def)
      from that(2) b show "lb_Instances b - set ids = lb_Instances b"
        by (auto simp add: members_def)
    qed
    show ?answer
      using f b strangers
      by (simp add: AddLoadBalancerInstances_remote RemoveInstancesFromLoadBalancer_remote
          map_upd_triv)
  qed
qed

text \<open>
  The witness runs the three calls at a reliable provider on an LB with the members i-1 and
  i-2.
\<close>

theorem empty_and_absent_instances_witness:
  "members with_members ''api-lb'' = {''i-1'', ''i-2''} \<and>
   fst (AddLoadBalancerInstances (remote_client reliable) ''api-lb'' [] with_members) = None \<and>
   members (snd (AddLoadBalancerInstances (remote_client reliable) ''api-lb'' [] with_members))
     ''api-lb'' = {''i-1'', ''i-2''} \<and>
   fst (RemoveInstancesFromLoadBalancer (remote_client reliable) ''api-lb'' [] with_members) =
     None \<and>
   members (snd (RemoveInstancesFromLoadBalancer (remote_client reliable) ''api-lb'' []
     with_members)) ''api-lb'' = {''i-1'', ''i-2''} \<and>
   fst (RemoveInstancesFromLoadBalancer (remote_client reliable) ''api-lb'' [''i-9'']
     with_members) = None \<and>
   members (snd (RemoveInstancesFromLoadBalancer (remote_client reliable) ''api-lb'' [''i-9'']
     with_members)) ''api-lb'' = {''i-1'', ''i-2''}"
proof -
  have f: "fault reliable OpRegisterInstances = None" "fault reliable OpDeregisterInstances = None"
    and accepts: "\<not> rejects_empty_instances reliable" "\<not> reports_absent_member reliable"
    by (simp_all add: reliable_def)
  have m: "members with_members ''api-lb'' = {''i-1'', ''i-2''}"
    by (simp add: members_def with_members_api_lb)
  have same: "members s' ''api-lb'' = {''i-1'', ''i-2''}" if "lbs s' = lbs with_members" for s'
    using that m by (simp add: members_def)
  show ?thesis
    using empty_and_absent_instances [THEN conjunct2, THEN conjunct2, THEN conjunct2,
        THEN conjunct2, rule_format,
        OF conjI [OF f(1) conjI [OF f(2) with_members_api_lb]], of "[''i-9'']"]
      accepts m
    by (simp add: same)
qed

end
